theory Spec2Isabelle
  imports Main "HOL-Library.Sublist"
begin

section \<open>JavaScript values and strings\<close>

text \<open>
  A value that can be thrown or used as a rejection reason. An \<open>Error\<close> instance carries
  its \<open>name\<close> and whatever its \<open>message\<close> property holds: the declaration of \<open>Error\<close>
  types it as a string, but at run time it can be any value. Every other value fails the
  test \<open>error instanceof Error\<close>. The values are data: there are no functions and no
  arrays among them, so a message that is not a string has no \<open>includes\<close> method.
  Strings are lists of characters; the literals of the source are ASCII.
\<close>

datatype js_value =
    JSError string js_value
  | JSString string
  | JSNumber int
  | JSBoolean bool
  | JSUndefined
  | JSNull
  | JSObject "(string \<times> js_value) list"


text \<open>\<open>s.includes(p)\<close>: \<open>p\<close> occurs in \<open>s\<close> as a contiguous run of characters.\<close>

fun js_includes :: "string \<Rightarrow> string \<Rightarrow> bool" where
  "js_includes [] p = (p = [])"
| "js_includes (c # cs) p = (prefix p (c # cs) \<or> js_includes cs p)"

text \<open>
  What the call \<open>error.message.includes(...)\<close> throws when \<open>error.message\<close> is not a
  string: a \<open>TypeError\<close>, for reading a property of \<open>undefined\<close> or \<open>null\<close>, or for
  calling what is not a function. The texts are those of the V8 engine.
\<close>

fun includes_TypeError :: "js_value \<Rightarrow> js_value" where
  "includes_TypeError JSUndefined =
     JSError ''TypeError''
       (JSString (''Cannot read properties of undefined (reading '' @ [CHR 0x27]
                    @ ''includes'' @ [CHR 0x27] @ '')''))"
| "includes_TypeError JSNull =
     JSError ''TypeError''
       (JSString (''Cannot read properties of null (reading '' @ [CHR 0x27]
                    @ ''includes'' @ [CHR 0x27] @ '')''))"
| "includes_TypeError v =
     JSError ''TypeError'' (JSString ''error.message.includes is not a function'')"

section \<open>Error classification (src/lib/transactionUtils.ts)\<close>

record SuiError =
  message :: string
  code :: "string option"
  details :: "js_value option"

text \<open>
  The classifier returns a \<open>SuiError\<close> (\<open>Inr\<close>) or throws (\<open>Inl\<close>): the first test on an
  \<open>Error\<close> calls \<open>includes\<close> on its message.
\<close>

fun handleTransactionError :: "js_value \<Rightarrow> js_value + SuiError" where
  "handleTransactionError (JSError n (JSString m)) =
     Inr (if js_includes m ''Insufficient funds'' then
        \<lparr> message = ''Insufficient SUI balance to complete the transaction'',
          code = Some ''INSUFFICIENT_FUNDS'',
          details = Some (JSError n (JSString m)) \<rparr>
      else if js_includes m ''Gas budget'' then
        \<lparr> message = ''Transaction requires more gas than available'',
          code = Some ''GAS_BUDGET_ERROR'',
          details = Some (JSError n (JSString m)) \<rparr>
      else if js_includes m ''No valid gas coins found'' then
        \<lparr> message = ''No separate coin available for gas fees. You may need more SUI coins or a larger balance.'',
          code = Some ''NO_GAS_COINS'',
          details = Some (JSError n (JSString m)) \<rparr>
      else if js_includes m ''Object not found'' then
        \<lparr> message = ''The requested object was not found on the blockchain'',
          code = Some ''OBJECT_NOT_FOUND'',
          details = Some (JSError n (JSString m)) \<rparr>
      else if js_includes m ''User rejected'' then
        \<lparr> message = ''Transaction was rejected by the user'',
          code = Some ''USER_REJECTED'',
          details = Some (JSError n (JSString m)) \<rparr>
      else
        \<lparr> message = m,
          code = Some ''TRANSACTION_ERROR'',
          details = Some (JSError n (JSString m)) \<rparr>)"
| "handleTransactionError (JSError n msg) = Inl (includes_TypeError msg)"
| "handleTransactionError v =
     Inr \<lparr> message = ''An unknown error occurred during the transaction'',
           code = Some ''UNKNOWN_ERROR'',
           details = Some v \<rparr>"







section \<open>Transaction builders (src/lib/transactionUtils.ts)\<close>

text \<open>
  The builders call the SDK, which is not part of the repository. Each call they make
  parses one string and either throws or records what it parsed, so the SDK is a
  parameter here: for \<open>tx.pure.string\<close>, for the \<open>u64\<close> that \<open>tx.splitCoins\<close> makes of a
  string amount, for the address that \<open>tx.transferObjects\<close> makes of a string recipient,
  for \<open>tx.object\<close> and for the target of \<open>tx.moveCall\<close>, the thrown value (\<open>Inl\<close>) or
  the parsed one (\<open>Inr\<close>).
\<close>

record sdk =
  pure_string :: "string \<Rightarrow> js_value + string"
  pure_u64 :: "string \<Rightarrow> js_value + nat"
  pure_address :: "string \<Rightarrow> js_value + string"
  object_id :: "string \<Rightarrow> js_value + string"
  move_target :: "string \<Rightarrow> js_value + string"

text \<open>
  A \<open>Transaction\<close> is what its builder methods have recorded: the list of commands, in
  call order. \<open>tx.gas\<close> is the implicit gas coin, \<open>tx.object(id)\<close> a reference to a named
  object, and the value returned by \<open>tx.splitCoins\<close> refers to the result of that command.
\<close>

datatype pure_value = PureString string | PureU64 nat | PureAddress string

datatype tx_argument = GasCoin | Pure pure_value | ObjectRef string | Result nat

datatype tx_command =
    MoveCall string "tx_argument list"
  | SplitCoins tx_argument "tx_argument list"
  | TransferObjects "tx_argument list" tx_argument

type_synonym Transaction = "tx_command list"

definition new_Transaction :: Transaction where
  "new_Transaction = []"

text \<open>A step that may throw, followed by what is done with its value.\<close>

definition and_then :: "js_value + 'a \<Rightarrow> ('a \<Rightarrow> js_value + 'b) \<Rightarrow> js_value + 'b" where
  "and_then r f = (case r of Inl thrown \<Rightarrow> Inl thrown | Inr v \<Rightarrow> f v)"

fun each_in_order :: "('a \<Rightarrow> js_value + 'b) \<Rightarrow> 'a list \<Rightarrow> js_value + 'b list" where
  "each_in_order f [] = Inr []"
| "each_in_order f (x # xs) =
     and_then (f x) (\<lambda>v. and_then (each_in_order f xs) (\<lambda>vs. Inr (v # vs)))"

definition tx_pure_string :: "sdk \<Rightarrow> string \<Rightarrow> js_value + tx_argument" where
  "tx_pure_string k s = and_then (pure_string k s) (\<lambda>v. Inr (Pure (PureString v)))"

definition tx_object :: "sdk \<Rightarrow> string \<Rightarrow> js_value + tx_argument" where
  "tx_object k i = and_then (object_id k i) (\<lambda>v. Inr (ObjectRef v))"

definition tx_moveCall ::
  "sdk \<Rightarrow> Transaction \<Rightarrow> string \<Rightarrow> tx_argument list \<Rightarrow> js_value + Transaction" where
  "tx_moveCall k tx target arguments =
     and_then (move_target k target) (\<lambda>t. Inr (tx @ [MoveCall t arguments]))"

definition tx_splitCoins ::
  "sdk \<Rightarrow> Transaction \<Rightarrow> tx_argument \<Rightarrow> string list
     \<Rightarrow> js_value + Transaction \<times> tx_argument" where
  "tx_splitCoins k tx coin amounts =
     and_then (each_in_order (pure_u64 k) amounts) (\<lambda>ns.
       Inr (tx @ [SplitCoins coin (map (\<lambda>n. Pure (PureU64 n)) ns)], Result (length tx)))"

definition tx_transferObjects ::
  "sdk \<Rightarrow> Transaction \<Rightarrow> tx_argument list \<Rightarrow> string \<Rightarrow> js_value + Transaction" where
  "tx_transferObjects k tx objects address =
     and_then (pure_address k address) (\<lambda>a.
       Inr (tx @ [TransferObjects objects (Pure (PureAddress a))]))"

text \<open>
  src/lib/constants.ts. \<open>PACKAGE_ID\<close> is the environment variable when it is set to a
  non-empty string, and the deployed package otherwise.
\<close>

definition PACKAGE_ID :: "string option \<Rightarrow> string" where
  "PACKAGE_ID env =
     (case env of
        Some v \<Rightarrow> if v \<noteq> [] then v
                  else ''0x95ea5e48398629b9e21b47bd43ae04174ac3e310b54fb961d780b856b3eaf1a3''
      | None \<Rightarrow> ''0x95ea5e48398629b9e21b47bd43ae04174ac3e310b54fb961d780b856b3eaf1a3'')"

definition MODULE_NAME :: string where
  "MODULE_NAME = ''simple_nft''"

definition CONTRACT_FUNCTIONS_MINT :: "string option \<Rightarrow> string" where
  "CONTRACT_FUNCTIONS_MINT env = PACKAGE_ID env @ ''::'' @ MODULE_NAME @ ''::mint''"

definition CONTRACT_FUNCTIONS_LEVEL_UP :: "string option \<Rightarrow> string" where
  "CONTRACT_FUNCTIONS_LEVEL_UP env = PACKAGE_ID env @ ''::'' @ MODULE_NAME @ ''::level_up''"

record MintNFTData =
  name :: string
  description :: string
  image_url :: string

text \<open>
  The elements of the \<open>arguments\<close> array are evaluated in order, before \<open>tx.moveCall\<close> is
  called; the first throw ends the construction.
\<close>

definition createMintNFTTransaction ::
  "sdk \<Rightarrow> string option \<Rightarrow> MintNFTData \<Rightarrow> js_value + Transaction" where
  "createMintNFTTransaction k env data =
     (let tx = new_Transaction in
      and_then (tx_pure_string k (name data)) (\<lambda>a1.
      and_then (tx_pure_string k (description data)) (\<lambda>a2.
      and_then (tx_pure_string k (image_url data)) (\<lambda>a3.
      tx_moveCall k tx (CONTRACT_FUNCTIONS_MINT env) [a1, a2, a3]))))"

definition createLevelUpTransaction ::
  "sdk \<Rightarrow> string option \<Rightarrow> string \<Rightarrow> js_value + Transaction" where
  "createLevelUpTransaction k env nftId =
     (let tx = new_Transaction in
      and_then (tx_object k nftId) (\<lambda>a.
      tx_moveCall k tx (CONTRACT_FUNCTIONS_LEVEL_UP env) [a]))"

text \<open>
  \<open>recipient\<close> is optional; \<open>if (recipient)\<close> is JavaScript truthiness, so an absent
  recipient and the empty string both skip the transfer.
\<close>

definition createCoinSplitTransaction ::
  "sdk \<Rightarrow> string \<Rightarrow> string \<Rightarrow> string option \<Rightarrow> js_value + Transaction" where
  "createCoinSplitTransaction k coinObjectId amount recipient =
     (let tx = new_Transaction in
      and_then (tx_splitCoins k tx GasCoin [amount]) (\<lambda>(tx1, splitCoin).
        case recipient of
          None \<Rightarrow> Inr tx1
        | Some r \<Rightarrow> if r \<noteq> [] then tx_transferObjects k tx1 [splitCoin] r else Inr tx1))"

text \<open>What a built transaction contains, for stating properties of the builders.\<close>

fun split_sources :: "Transaction \<Rightarrow> (tx_argument \<times> tx_argument list) list" where
  "split_sources [] = []"
| "split_sources (SplitCoins c as # cmds) = (c, as) # split_sources cmds"
| "split_sources (cmd # cmds) = split_sources cmds"

fun transfers :: "Transaction \<Rightarrow> (tx_argument list \<times> tx_argument) list" where
  "transfers [] = []"
| "transfers (TransferObjects os a # cmds) = (os, a) # transfers cmds"
| "transfers (cmd # cmds) = transfers cmds"

fun command_arguments :: "tx_command \<Rightarrow> tx_argument list" where
  "command_arguments (MoveCall t as) = as"
| "command_arguments (SplitCoins c as) = c # as"
| "command_arguments (TransferObjects os a) = os @ [a]"

definition named_objects :: "Transaction \<Rightarrow> string list" where
  "named_objects tx =
     concat (map (\<lambda>cmd. concat (map (\<lambda>a. case a of ObjectRef i \<Rightarrow> [i] | _ \<Rightarrow> [])
                                    (command_arguments cmd))) tx)"

section \<open>Effects of an operation hook\<close>

text \<open>
  How a block of an async function completes: normally with a value, by throwing (a
  rejected promise), or never, when an awaited promise is never settled.
\<close>

datatype 'a completion = Normal 'a | Throw js_value | Pending

text \<open>
  The outcome the wallet hands to \<open>onSuccess\<close>: its digest and the rest of the payload.
  The injected \<open>signAndExecuteTransaction\<close> calls \<open>onSuccess\<close>, calls \<open>onError\<close>, or
  calls neither.
\<close>

datatype sign_result = SignResult string js_value

fun result_digest :: "sign_result \<Rightarrow> string" where
  "result_digest (SignResult d rest) = d"

datatype settlement = Resolved sign_result | Rejected js_value | Unsettled

record TransactionResponse =
  success :: bool
  digest :: "string option"
  error :: "string option"
  data :: "sign_result option"

text \<open>
  The state of a hook: the two \<open>useState\<close> cells, and the trace of everything the
  operation did to the outside, in order.
\<close>

datatype event =
    SetIsLoading bool
  | SetError "string option"
  | SignAndExecute Transaction
  | ToastSuccess string
  | ToastError string

record hook_state =
  isLoading :: bool
  error_state :: "string option"
  events :: "event list"

type_synonym 'a eff = "hook_state \<Rightarrow> 'a completion \<times> hook_state"

definition ret :: "'a \<Rightarrow> 'a eff" where
  "ret x = (\<lambda>s. (Normal x, s))"

definition throw :: "js_value \<Rightarrow> 'a eff" where
  "throw e = (\<lambda>s. (Throw e, s))"

definition bind :: "'a eff \<Rightarrow> ('a \<Rightarrow> 'b eff) \<Rightarrow> 'b eff" where
  "bind m f =
     (\<lambda>s. case m s of
             (Normal x, s') \<Rightarrow> f x s'
           | (Throw e, s') \<Rightarrow> (Throw e, s')
           | (Pending, s') \<Rightarrow> (Pending, s'))"

text \<open>
  \<open>try { body } catch (err) { handler } finally { finalizer }\<close>: the handler runs on a
  throw of the body, the finalizer after either of them has completed, also when the
  handler itself throws; a block that never completes runs neither. A finalizer that
  completes normally leaves the completion of the block before it in place.
\<close>

definition try_catch_finally :: "'a eff \<Rightarrow> (js_value \<Rightarrow> 'a eff) \<Rightarrow> unit eff \<Rightarrow> 'a eff" where
  "try_catch_finally body handler finalizer =
     (\<lambda>s. let (c, s1) = (case body s of
                            (Throw e, s') \<Rightarrow> handler e s'
                          | r \<Rightarrow> r)
           in case c of
                Pending \<Rightarrow> (Pending, s1)
              | _ \<Rightarrow> (case finalizer s1 of
                        (Normal u, s2) \<Rightarrow> (c, s2)
                      | (Throw e, s2) \<Rightarrow> (Throw e, s2)
                      | (Pending, s2) \<Rightarrow> (Pending, s2)))"

definition setIsLoading :: "bool \<Rightarrow> unit eff" where
  "setIsLoading b = (\<lambda>s. (Normal (), s\<lparr>isLoading := b, events := events s @ [SetIsLoading b]\<rparr>))"

definition setError :: "string option \<Rightarrow> unit eff" where
  "setError e = (\<lambda>s. (Normal (), s\<lparr>error_state := e, events := events s @ [SetError e]\<rparr>))"

definition toast_success :: "string \<Rightarrow> unit eff" where
  "toast_success t = (\<lambda>s. (Normal (), s\<lparr>events := events s @ [ToastSuccess t]\<rparr>))"

definition toast_error :: "string \<Rightarrow> unit eff" where
  "toast_error t = (\<lambda>s. (Normal (), s\<lparr>events := events s @ [ToastError t]\<rparr>))"

text \<open>
  \<open>await new Promise((resolve, reject) => signAndExecuteTransaction({transaction},
  {onSuccess: resolve, onError: reject}))\<close>: the signer is called once, then the promise
  is awaited.
\<close>

definition await_signAndExecute :: "(Transaction \<Rightarrow> settlement) \<Rightarrow> Transaction \<Rightarrow> sign_result eff" where
  "await_signAndExecute signAndExecuteTransaction transaction =
     (\<lambda>s. let s' = s\<lparr>events := events s @ [SignAndExecute transaction]\<rparr>
           in case signAndExecuteTransaction transaction of
                Resolved result \<Rightarrow> (Normal result, s')
              | Rejected err \<Rightarrow> (Throw err, s')
              | Unsettled \<Rightarrow> (Pending, s'))"

section \<open>The mint and level-up hooks (src/hooks/useNFTs.ts, src/unnamed/part_008)\<close>

text \<open>
  For each hook, \<open>_try\<close> is its \<open>try\<close> block and the hook itself the whole function: the
  two state writes, the \<open>try\<close> block, the \<open>catch\<close> clause, which calls the classifier
  first, and the \<open>finally\<close> clause.
\<close>

definition mintNFT_try ::
  "sdk \<Rightarrow> string option \<Rightarrow> (Transaction \<Rightarrow> settlement) \<Rightarrow> MintNFTData
     \<Rightarrow> TransactionResponse eff" where
  "mintNFT_try k env signAndExecuteTransaction mintData =
     (case createMintNFTTransaction k env mintData of
        Inl thrown \<Rightarrow> throw thrown
      | Inr transaction \<Rightarrow>
          bind (await_signAndExecute signAndExecuteTransaction transaction) (\<lambda>result.
          bind (toast_success ''NFT minted successfully!'') (\<lambda>_.
          ret \<lparr> success = True, digest = Some (result_digest result), error = None,
                data = Some result \<rparr>)))"

definition mintNFT ::
  "sdk \<Rightarrow> string option \<Rightarrow> (Transaction \<Rightarrow> settlement) \<Rightarrow> MintNFTData
     \<Rightarrow> TransactionResponse eff" where
  "mintNFT k env signAndExecuteTransaction mintData =
     bind (setIsLoading True) (\<lambda>_.
     bind (setError None) (\<lambda>_.
     try_catch_finally
       (mintNFT_try k env signAndExecuteTransaction mintData)
       (\<lambda>err.
        case handleTransactionError err of
          Inl thrown \<Rightarrow> throw thrown
        | Inr suiError \<Rightarrow>
            bind (setError (Some (message suiError))) (\<lambda>_.
            bind (toast_error (''Failed to mint NFT: '' @ message suiError)) (\<lambda>_.
            ret \<lparr> success = False, digest = None, error = Some (message suiError),
                  data = None \<rparr>)))
       (setIsLoading False)))"

text \<open>
  The success toast of \<open>levelUp\<close> holds, after the exclamation mark, the nine bytes that
  the source file has there.
\<close>

definition levelUp_try ::
  "sdk \<Rightarrow> string option \<Rightarrow> (Transaction \<Rightarrow> settlement) \<Rightarrow> string
     \<Rightarrow> TransactionResponse eff" where
  "levelUp_try k env signAndExecuteTransaction nftId =
     (case createLevelUpTransaction k env nftId of
        Inl thrown \<Rightarrow> throw thrown
      | Inr transaction \<Rightarrow>
          bind (await_signAndExecute signAndExecuteTransaction transaction) (\<lambda>result.
          bind (toast_success (''NFT leveled up successfully! ''
                  @ [CHR 0xC3, CHR 0xB0, CHR 0xC5, CHR 0xB8, CHR 0xC5, CHR 0xA1,
                     CHR 0xE2, CHR 0x82, CHR 0xAC]
                  @ '' Level will update shortly.'')) (\<lambda>_.
          ret \<lparr> success = True, digest = Some (result_digest result), error = None,
                data = Some result \<rparr>)))"

definition levelUp ::
  "sdk \<Rightarrow> string option \<Rightarrow> (Transaction \<Rightarrow> settlement) \<Rightarrow> string
     \<Rightarrow> TransactionResponse eff" where
  "levelUp k env signAndExecuteTransaction nftId =
     bind (setIsLoading True) (\<lambda>_.
     bind (setError None) (\<lambda>_.
     try_catch_finally
       (levelUp_try k env signAndExecuteTransaction nftId)
       (\<lambda>err.
        case handleTransactionError err of
          Inl thrown \<Rightarrow> throw thrown
        | Inr suiError \<Rightarrow>
            bind (setError (Some (message suiError))) (\<lambda>_.
            bind (toast_error (''Failed to level up NFT: '' @ message suiError)) (\<lambda>_.
            ret \<lparr> success = False, digest = None, error = Some (message suiError),
                  data = None \<rparr>)))
       (setIsLoading False)))"

section \<open>Numbers and parseInt\<close>

text \<open>
  The numbers of the balance check are results of \<open>parseInt\<close> and sums of them: doubles
  that hold an integer, \<open>NaN\<close>, or an infinity. \<open>Num n\<close> is the double whose value is the
  integer \<open>n\<close>. \<open>to_number\<close> rounds an integer to the nearest double, ties to the even
  mantissa: every integer up to \<open>2^53\<close> (9007199254740992) in magnitude is a double; a
  larger one keeps the 53 leading bits of its magnitude; a rounded magnitude of more
  than 1024 bits, that is from \<open>2^1024\<close> on, gives an infinity.
\<close>

datatype js_number = Num int | NaN | Infinity | MinusInfinity

function bit_length :: "int \<Rightarrow> nat" where
  "bit_length n = (if n \<le> 0 then 0 else Suc (bit_length (n div 2)))"
  by pat_completeness auto
termination
  by (relation "measure nat") auto

declare bit_length.simps [simp del]

definition round_magnitude :: "int \<Rightarrow> int" where
  "round_magnitude n =
     (if n \<le> 9007199254740992 then n
      else
        let shift = bit_length n - 53;
            q = n div 2 ^ shift;
            r = n mod 2 ^ shift;
            half = 2 ^ (shift - 1);
            q' = (if half < r \<or> (r = half \<and> odd q) then q + 1 else q)
        in q' * 2 ^ shift)"

definition to_number :: "int \<Rightarrow> js_number" where
  "to_number n =
     (let m = round_magnitude \<bar>n\<bar> in
      if 1024 < bit_length m then (if n < 0 then MinusInfinity else Infinity)
      else Num (if n < 0 then - m else m))"

text \<open>
  Addition of doubles is the exact sum, rounded; a sum with \<open>NaN\<close>, and the sum of the
  two infinities, is \<open>NaN\<close>. Every comparison with \<open>NaN\<close> is false.
\<close>

fun js_add :: "js_number \<Rightarrow> js_number \<Rightarrow> js_number" where
  "js_add (Num a) (Num b) = to_number (a + b)"
| "js_add NaN b = NaN"
| "js_add a NaN = NaN"
| "js_add Infinity MinusInfinity = NaN"
| "js_add MinusInfinity Infinity = NaN"
| "js_add Infinity b = Infinity"
| "js_add a Infinity = Infinity"
| "js_add MinusInfinity b = MinusInfinity"
| "js_add a MinusInfinity = MinusInfinity"

fun js_less :: "js_number \<Rightarrow> js_number \<Rightarrow> bool" where
  "js_less (Num a) (Num b) = (a < b)"
| "js_less NaN b = False"
| "js_less a NaN = False"
| "js_less MinusInfinity MinusInfinity = False"
| "js_less MinusInfinity b = True"
| "js_less a Infinity = (a \<noteq> Infinity)"
| "js_less a b = False"

definition js_greater :: "js_number \<Rightarrow> js_number \<Rightarrow> bool" where
  "js_greater a b = js_less b a"

text \<open>
  \<open>parseInt(str)\<close> with no radix: leading white space is dropped, then an optional sign,
  then a \<open>0x\<close> prefix selects radix 16, then the longest run of digits is read; no digit
  at all gives \<open>NaN\<close>, and the integer read is rounded to a double.
\<close>

definition is_whitespace :: "char \<Rightarrow> bool" where
  "is_whitespace c = ((of_char c :: nat) \<in> {9, 10, 11, 12, 13, 32, 160})"

definition digit_of :: "char \<Rightarrow> nat option" where
  "digit_of c =
     (let n = (of_char c :: nat) in
      if 48 \<le> n \<and> n \<le> 57 then Some (n - 48)
      else if 97 \<le> n \<and> n \<le> 102 then Some (n - 87)
      else if 65 \<le> n \<and> n \<le> 70 then Some (n - 55)
      else None)"

definition digit_in :: "nat \<Rightarrow> char \<Rightarrow> nat option" where
  "digit_in R c = (case digit_of c of Some d \<Rightarrow> if d < R then Some d else None | None \<Rightarrow> None)"

fun parse_digits :: "nat \<Rightarrow> string \<Rightarrow> int option \<Rightarrow> int option" where
  "parse_digits R [] acc = acc"
| "parse_digits R (c # cs) acc =
     (case digit_in R c of
        None \<Rightarrow> acc
      | Some d \<Rightarrow> parse_digits R cs
                   (Some (int R * (case acc of None \<Rightarrow> 0 | Some a \<Rightarrow> a) + int d)))"

definition parseInt :: "string \<Rightarrow> js_number" where
  "parseInt str =
     (let S = dropWhile is_whitespace str;
          sign = (if take 1 S = ''-'' then - 1 else 1);
          S1 = (if take 1 S = ''-'' \<or> take 1 S = ''+'' then drop 1 S else S);
          hex = (take 2 S1 = ''0x'' \<or> take 2 S1 = ''0X'');
          R = (if hex then 16 else 10);
          Z = (if hex then drop 2 S1 else S1)
      in case parse_digits R Z None of
           None \<Rightarrow> NaN
         | Some v \<Rightarrow> to_number (sign * v))"

section \<open>The coin-split hook (src/unnamed/part_007)\<close>

text \<open>
  A coin as \<open>getCoins\<close> returns it; only the two fields the hook reads are kept.
  \<open>reduce\<close> with an initial value is \<open>foldl\<close>; without one it starts from the first
  element and throws a \<open>TypeError\<close> on an empty array.
\<close>

datatype coin = Coin string string

fun coin_coinObjectId :: "coin \<Rightarrow> string" where
  "coin_coinObjectId (Coin i b) = i"

fun coin_balance :: "coin \<Rightarrow> string" where
  "coin_balance (Coin i b) = b"

record CoinSplitData =
  amount :: string
  coinObjectId :: string

fun reduce1 :: "('a \<Rightarrow> 'a \<Rightarrow> 'a) \<Rightarrow> 'a list \<Rightarrow> 'a option" where
  "reduce1 f [] = None"
| "reduce1 f (x # xs) = Some (foldl f x xs)"

definition estimatedGas :: js_number where
  "estimatedGas = Num 10000000"

text \<open>
  \<open>suiToMist\<close> is floating-point arithmetic on fractions (\<open>parseFloat\<close>, a product,
  \<open>Math.floor\<close>); it is a parameter here. \<open>coins\<close> is the \<open>data\<close> array of the coin query,
  absent while the query has no result; \<open>address\<close> is \<open>currentAccount?.address\<close>.
\<close>

definition splitCoin_try ::
  "sdk \<Rightarrow> (Transaction \<Rightarrow> settlement) \<Rightarrow> (string \<Rightarrow> string) \<Rightarrow> coin list option
     \<Rightarrow> string option \<Rightarrow> CoinSplitData \<Rightarrow> TransactionResponse eff" where
  "splitCoin_try k signAndExecuteTransaction suiToMist coins address splitData =
     (let amountInMist = suiToMist (amount splitData) in
      case coins of
        None \<Rightarrow> throw (JSError ''Error'' (JSString ''No SUI coins found in your wallet''))
      | Some cs \<Rightarrow>
          if length cs = 0 then
            throw (JSError ''Error'' (JSString ''No SUI coins found in your wallet''))
          else
            let totalBalance = foldl (\<lambda>sum c. js_add sum (parseInt (coin_balance c))) (Num 0) cs;
                requiredAmount = parseInt amountInMist
            in
            if js_less totalBalance (js_add requiredAmount estimatedGas) then
              throw (JSError ''Error''
                (JSString ''Insufficient balance for split amount plus gas fees''))
            else
              (case reduce1 (\<lambda>largest c.
                        if js_greater (parseInt (coin_balance c)) (parseInt (coin_balance largest))
                        then c else largest) cs of
                 None \<Rightarrow> throw (JSError ''TypeError''
                           (JSString ''Reduce of empty array with no initial value''))
               | Some suitableCoin \<Rightarrow>
                   if js_less (parseInt (coin_balance suitableCoin))
                        (js_add requiredAmount estimatedGas) then
                     throw (JSError ''Error'' (JSString
                       ''Largest coin does not have sufficient balance for split amount plus gas fees''))
                   else
                     (case createCoinSplitTransaction k
                             (coin_coinObjectId suitableCoin) amountInMist address of
                        Inl thrown \<Rightarrow> throw thrown
                      | Inr transaction \<Rightarrow>
                          bind (await_signAndExecute signAndExecuteTransaction transaction)
                            (\<lambda>result.
                          bind (toast_success
                                  (''Successfully split '' @ amount splitData @ '' SUI''))
                            (\<lambda>_.
                          ret \<lparr> success = True, digest = Some (result_digest result),
                                error = None, data = Some result \<rparr>)))))"

definition splitCoin ::
  "sdk \<Rightarrow> (Transaction \<Rightarrow> settlement) \<Rightarrow> (string \<Rightarrow> string) \<Rightarrow> coin list option
     \<Rightarrow> string option \<Rightarrow> CoinSplitData \<Rightarrow> TransactionResponse eff" where
  "splitCoin k signAndExecuteTransaction suiToMist coins address splitData =
     bind (setIsLoading True) (\<lambda>_.
     bind (setError None) (\<lambda>_.
     try_catch_finally
       (splitCoin_try k signAndExecuteTransaction suiToMist coins address splitData)
       (\<lambda>err.
        case handleTransactionError err of
          Inl thrown \<Rightarrow> throw thrown
        | Inr suiError \<Rightarrow>
            bind (setError (Some (message suiError))) (\<lambda>_.
            bind (toast_error (''Failed to split coin: '' @ message suiError)) (\<lambda>_.
            ret \<lparr> success = False, digest = None, error = Some (message suiError),
                  data = None \<rparr>)))
       (setIsLoading False)))"

text \<open>How often the signer was called, read off the trace.\<close>

fun signer_calls :: "event list \<Rightarrow> nat" where
  "signer_calls [] = 0"
| "signer_calls (SignAndExecute tx # es) = Suc (signer_calls es)"
| "signer_calls (e # es) = signer_calls es"

fun loading_writes :: "event list \<Rightarrow> bool list" where
  "loading_writes [] = []"
| "loading_writes (SetIsLoading b # es) = b # loading_writes es"
| "loading_writes (e # es) = loading_writes es"

section \<open>Confirmation polling (src/lib/transactionUtils.ts)\<close>

text \<open>
  What one status query gives back: a transaction block, of which the poller reads
  \<open>effects?.status\<close> (absent, success, or failure with an optional reason), a rejection,
  or no answer at all.
\<close>

datatype execution_status = StatusSuccess | StatusFailure "string option"

datatype tx_block = TxBlock "execution_status option" js_value

fun effects_status :: "tx_block \<Rightarrow> execution_status option" where
  "effects_status (TxBlock st rest) = st"

datatype query_result = Returned tx_block | Failed js_value | NoAnswer

text \<open>
  Time is a logical clock in milliseconds. The client answers the \<open>k\<close>-th query of a
  digest after \<open>query_ms k\<close>; the timer of the \<open>k\<close>-th wait fires \<open>timer_lag_ms k\<close> after
  its 1000 ms have passed.
\<close>

record poll_client =
  getTransactionBlock :: "string \<Rightarrow> nat \<Rightarrow> query_result"
  query_ms :: "nat \<Rightarrow> nat"
  timer_lag_ms :: "nat \<Rightarrow> nat"

datatype poll_step = Done "tx_block completion" | Continue

text \<open>A template literal prints an absent value as \<open>undefined\<close>.\<close>

definition template_string :: "string option \<Rightarrow> string" where
  "template_string v = (case v of Some t \<Rightarrow> t | None \<Rightarrow> ''undefined'')"

text \<open>
  The \<open>catch\<close> clause of the loop body: it rethrows, or falls through to the wait; its
  test calls \<open>includes\<close> on the message of an \<open>Error\<close>, which throws when the message is
  not a string.
\<close>

definition catch_clause :: "js_value \<Rightarrow> poll_step" where
  "catch_clause err =
     (case err of
        JSError n msg \<Rightarrow>
          (case msg of
             JSString m \<Rightarrow> if \<not> js_includes m ''not found'' then Done (Throw err) else Continue
           | _ \<Rightarrow> Done (Throw (includes_TypeError msg)))
      | _ \<Rightarrow> Continue)"

text \<open>The \<open>try\<close>/\<open>catch\<close> of the loop body, on the answer to the query it awaits.\<close>

definition poll_once :: "query_result \<Rightarrow> poll_step" where
  "poll_once q =
     (case q of
        NoAnswer \<Rightarrow> Done Pending
      | Failed err \<Rightarrow> catch_clause err
      | Returned result \<Rightarrow>
          (case effects_status result of
             Some StatusSuccess \<Rightarrow> Done (Normal result)
           | Some (StatusFailure reason) \<Rightarrow>
               catch_clause
                 (JSError ''Error'' (JSString (''Transaction failed: '' @ template_string reason)))
           | None \<Rightarrow> Continue))"

text \<open>
  The \<open>while\<close> loop. \<open>elapsed\<close> is \<open>Date.now() - startTime\<close> at the loop test, \<open>issued\<close>
  the elapsed times at which the queries so far were sent.
\<close>

function poll ::
  "poll_client \<Rightarrow> string \<Rightarrow> int \<Rightarrow> nat \<Rightarrow> nat list \<Rightarrow> tx_block completion \<times> nat list" where
  "poll client dig timeoutMs elapsed issued =
     (if int elapsed < timeoutMs then
        (case poll_once (getTransactionBlock client dig (length issued)) of
           Done c \<Rightarrow> (c, issued @ [elapsed])
         | Continue \<Rightarrow>
             poll client dig timeoutMs
               (elapsed + query_ms client (length issued) + 1000 + timer_lag_ms client (length issued))
               (issued @ [elapsed]))
      else (Throw (JSError ''Error'' (JSString ''Transaction confirmation timeout'')), issued))"
  by pat_completeness auto
termination
  by (relation "measure (\<lambda>(client, dig, timeoutMs, elapsed, issued). nat (timeoutMs - int elapsed))")
     auto

definition waitForTransaction ::
  "poll_client \<Rightarrow> string \<Rightarrow> int option \<Rightarrow> tx_block completion \<times> nat list" where
  "waitForTransaction client dig timeoutMs =
     poll client dig (case timeoutMs of None \<Rightarrow> 30000 | Some t \<Rightarrow> t) 0 []"

section \<open>Auxiliary notions for stating the properties\<close>

text \<open>
  The tail the three \<open>try\<close> blocks share once the transaction is built: call the signer,
  await it, announce the success and build the success response.
\<close>

definition sign_then_respond ::
  "(Transaction \<Rightarrow> settlement) \<Rightarrow> Transaction \<Rightarrow> string \<Rightarrow> TransactionResponse eff" where
  "sign_then_respond sg tx t =
     bind (await_signAndExecute sg tx) (\<lambda>result.
     bind (toast_success t) (\<lambda>_.
     ret \<lparr> success = True, digest = Some (result_digest result), error = None,
           data = Some result \<rparr>))"

text \<open>
  The frame the three hooks share, which the specification calls the submission
  orchestrator: the two state writes, the \<open>try\<close> block, the \<open>catch\<close> clause with the
  hook's own toast prefix, and the \<open>finally\<close> clause. Each hook is shown below to be an
  instance of it.
\<close>

definition orchestrate :: "TransactionResponse eff \<Rightarrow> string \<Rightarrow> TransactionResponse eff" where
  "orchestrate body failure_prefix =
     bind (setIsLoading True) (\<lambda>_.
     bind (setError None) (\<lambda>_.
     try_catch_finally body
       (\<lambda>err.
        case handleTransactionError err of
          Inl thrown \<Rightarrow> throw thrown
        | Inr suiError \<Rightarrow>
            bind (setError (Some (message suiError))) (\<lambda>_.
            bind (toast_error (failure_prefix @ message suiError)) (\<lambda>_.
            ret \<lparr> success = False, digest = None, error = Some (message suiError),
                  data = None \<rparr>)))
       (setIsLoading False)))"

text \<open>
  The state in which the \<open>try\<close> block of an invocation starts, what that block throws
  there, the events one invocation adds to the trace, and the transactions it had
  signed.
\<close>

definition entered :: "hook_state \<Rightarrow> hook_state" where
  "entered s = s\<lparr>isLoading := True, error_state := None,
                 events := events s @ [SetIsLoading True, SetError None]\<rparr>"

definition thrown_by :: "TransactionResponse eff \<Rightarrow> hook_state \<Rightarrow> js_value option" where
  "thrown_by body s = (case fst (body (entered s)) of Throw e \<Rightarrow> Some e | _ \<Rightarrow> None)"

definition new_events :: "hook_state \<Rightarrow> hook_state \<Rightarrow> event list" where
  "new_events s s' = drop (length (events s)) (events s')"

fun signed :: "event list \<Rightarrow> Transaction list" where
  "signed [] = []"
| "signed (SignAndExecute tx # es) = tx # signed es"
| "signed (e # es) = signed es"

text \<open>
  \<open>isLoading\<close> around one invocation: the trace before it is kept, and the first thing
  the invocation does is write \<open>true\<close>. The invocation stays unsettled exactly when it
  has called the signer once and the signer has not settled; then \<open>true\<close> is the only
  write and the cell holds it. In every other case, whether the invocation returns or
  throws, it has written \<open>false\<close> once, as its last act, and the cell holds \<open>false\<close>.
\<close>

definition loading_bracket ::
  "(Transaction \<Rightarrow> settlement) \<Rightarrow> hook_state
     \<Rightarrow> TransactionResponse completion \<times> hook_state \<Rightarrow> bool" where
  "loading_bracket sg s out =
     (let evs = new_events s (snd out) in
      take (length (events s)) (events (snd out)) = events s
      \<and> take 1 evs = [SetIsLoading True]
      \<and> ((fst out = Pending) = (map sg (signed evs) = [Unsettled]))
      \<and> (if fst out = Pending then loading_writes evs = [True] \<and> isLoading (snd out)
         else loading_writes evs = [True, False] \<and> last evs = SetIsLoading False
              \<and> \<not> isLoading (snd out)))"


text \<open>
  What becomes of a failure \<open>e\<close> that the \<open>catch\<close> clause receives. When the classifier
  returns, the invocation returns the failure response that carries the classified
  message, and the hook's error cell holds the same message. When the classifier throws,
  the invocation throws that value, and the error cell is left cleared. An invocation
  whose \<open>try\<close> block throws nothing does not throw.
\<close>

definition failure_handled ::
  "js_value \<Rightarrow> TransactionResponse completion \<times> hook_state \<Rightarrow> bool" where
  "failure_handled e out =
     (case handleTransactionError e of
        Inr suiError \<Rightarrow>
          fst out = Normal \<lparr>success = False, digest = None,
                            error = Some (message suiError), data = None\<rparr>
          \<and> error_state (snd out) = Some (message suiError)
      | Inl thrown \<Rightarrow> fst out = Throw thrown \<and> error_state (snd out) = None)"


text \<open>
  The outcome of the frame on a failure \<open>e\<close> that its \<open>catch\<close> clause receives after
  the \<open>try\<close> block has added the events \<open>before\<close>, spelled out.
\<close>

definition caught ::
  "js_value \<Rightarrow> string \<Rightarrow> event list \<Rightarrow> hook_state
     \<Rightarrow> TransactionResponse completion \<times> hook_state" where
  "caught e p before s =
     (case handleTransactionError e of
        Inr suiError \<Rightarrow>
          (Normal \<lparr>success = False, digest = None, error = Some (message suiError),
                   data = None\<rparr>,
           s\<lparr>isLoading := False, error_state := Some (message suiError),
             events := events s @ [SetIsLoading True, SetError None] @ before
                @ [SetError (Some (message suiError)), ToastError (p @ message suiError),
                   SetIsLoading False]\<rparr>)
      | Inl thrown \<Rightarrow>
          (Throw thrown,
           s\<lparr>isLoading := False, error_state := None,
             events := events s @ [SetIsLoading True, SetError None] @ before
                @ [SetIsLoading False]\<rparr>))"


text \<open>
  The coins the hook sees: none while the query has no result. \<open>safe_bound\<close> is \<open>2^53\<close>:
  below it every integer is a double and sums of doubles are exact.
\<close>

definition owned :: "coin list option \<Rightarrow> coin list" where
  "owned coins = (case coins of None \<Rightarrow> [] | Some cs \<Rightarrow> cs)"

definition safe_bound :: int where
  "safe_bound = 9007199254740992"

text \<open>
  For the poller: the time of the \<open>k\<close>-th loop test when every earlier query was followed
  by the wait; an answer that says the transaction is not settled yet (a rejection with
  an \<open>Error\<close> whose message holds \<open>not found\<close>, or a block without a status); the error
  of the timeout; the timeout in force, 30000 when none is passed; and the number of
  loop tests that pass from \<open>elapsed\<close> on when a query takes no time and the timer has
  no lag.
\<close>

fun query_time :: "poll_client \<Rightarrow> nat \<Rightarrow> nat" where
  "query_time c 0 = 0"
| "query_time c (Suc k) = query_time c k + query_ms c k + 1000 + timer_lag_ms c k"

fun not_yet_settled :: "query_result \<Rightarrow> bool" where
  "not_yet_settled (Failed (JSError n (JSString m))) = js_includes m ''not found''"
| "not_yet_settled (Returned r) = (effects_status r = None)"
| "not_yet_settled q = False"

definition timeout_error :: js_value where
  "timeout_error = JSError ''Error'' (JSString ''Transaction confirmation timeout'')"

definition effective_timeout :: "int option \<Rightarrow> int" where
  "effective_timeout timeoutMs = (case timeoutMs of None \<Rightarrow> 30000 | Some t \<Rightarrow> t)"

definition ticks :: "int \<Rightarrow> nat \<Rightarrow> nat" where
  "ticks t elapsed = nat ((t - int elapsed + 999) div 1000)"

text \<open>
  The answers of the SDK to the calls that the examples below make: it takes any string
  as a pure string, and the two targets of the deployed package; it parses the amounts
  1000000000 and 4995000000; it throws a \<open>SyntaxError\<close> on the amount \<open>NaN\<close> and a \<open>TypeError\<close> on the
  negative amount -1000000000, neither being an unsigned 64-bit integer; it takes
  one address and one object id, both already in normal form. Every other call is
  answered by a throw that no example reaches. The theorems are stated for an arbitrary
  SDK.
\<close>

definition example_address :: string where
  "example_address = ''0x7d20dcdb2bca4f508ea9613994683eb4e76e9c4ed371169677c1be02aaf0b58e''"

definition example_object :: string where
  "example_object = ''0x1c2fd2bd4b0a4f1e9d3a6c5b7e8f90112233445566778899aabbccddeeff0011''"

definition outside_examples :: js_value where
  "outside_examples = JSError ''Error'' (JSString ''not a call of the examples'')"

definition example_sdk :: sdk where
  "example_sdk =
     \<lparr> pure_string = (\<lambda>s. Inr s),
       pure_u64 = (\<lambda>a. if a = ''1000000000'' then Inr 1000000000
                        else if a = ''4995000000'' then Inr 4995000000
                        else if a = ''NaN'' then
                          Inl (JSError ''SyntaxError'' (JSString ''Cannot convert NaN to a BigInt''))
                        else if a = ''-1000000000'' then
                          Inl (JSError ''TypeError'' (JSString ''Invalid u64 value: -1000000000''))
                        else Inl outside_examples),
       pure_address = (\<lambda>r. if r = example_address then Inr r else Inl outside_examples),
       object_id = (\<lambda>i. if i = example_object then Inr i else Inl outside_examples),
       move_target = (\<lambda>t. if t = CONTRACT_FUNCTIONS_MINT None
                              \<or> t = CONTRACT_FUNCTIONS_LEVEL_UP None
                           then Inr t else Inl outside_examples) \<rparr>"

text \<open>The state of a hook at rest, and the data of the mint in the examples.\<close>

definition idle :: hook_state where
  "idle = \<lparr>isLoading = False, error_state = None, events = []\<rparr>"

definition example_mint :: MintNFTData where
  "example_mint = \<lparr>name = ''Sword'', description = ''A sword'',
                    image_url = ''https://example.com/s.png''\<rparr>"

section \<open>Properties of the error classifier\<close>

lemma js_includes_sublist: "js_includes s p \<longleftrightarrow> sublist p s"
  by (induction s) (auto simp: sublist_Cons_right)

lemma js_includes_append: "js_includes s p \<longleftrightarrow> (\<exists>before after. s = before @ p @ after)"
  by (simp add: js_includes_sublist sublist_def)








section \<open>Properties of the coin-split builder\<close>

lemma createCoinSplitTransaction_cases:
  "createCoinSplitTransaction k coinId amt recipient =
     (case pure_u64 k amt of
        Inl e \<Rightarrow> Inl e
      | Inr n \<Rightarrow>
          (case recipient of
             None \<Rightarrow> Inr [SplitCoins GasCoin [Pure (PureU64 n)]]
           | Some r \<Rightarrow>
               if r = [] then Inr [SplitCoins GasCoin [Pure (PureU64 n)]]
               else (case pure_address k r of
                       Inl e \<Rightarrow> Inl e
                     | Inr a \<Rightarrow> Inr [SplitCoins GasCoin [Pure (PureU64 n)],
                                      TransferObjects [Result 0] (Pure (PureAddress a))])))"
  by (simp add: createCoinSplitTransaction_def new_Transaction_def tx_splitCoins_def
        tx_transferObjects_def and_then_def split: sum.splits option.splits)

text \<open>
  C9, as amended. The builder throws exactly what the SDK throws on the amount, or, the
  amount being accepted and the recipient being a non-empty string, what the SDK throws
  on the recipient. Otherwise it returns a transaction with exactly one split, taken
  from the gas coin and of the parsed amount alone; the transaction names no object; and
  it holds a transfer exactly when the recipient is given as a non-empty string, that
  transfer sending the result of the split to the parsed address.
\<close>

theorem createCoinSplitTransaction_outcome:
  "(createCoinSplitTransaction k coinId amt recipient = Inl e
      \<longleftrightarrow> pure_u64 k amt = Inl e
          \<or> ((\<exists>n. pure_u64 k amt = Inr n)
              \<and> (\<exists>r. recipient = Some r \<and> r \<noteq> [] \<and> pure_address k r = Inl e)))
   \<and> (\<forall>tx. createCoinSplitTransaction k coinId amt recipient = Inr tx \<longrightarrow>
         (\<exists>n. pure_u64 k amt = Inr n \<and> split_sources tx = [(GasCoin, [Pure (PureU64 n)])])
         \<and> named_objects tx = []
         \<and> (transfers tx \<noteq> [] \<longleftrightarrow> (\<exists>r. recipient = Some r \<and> r \<noteq> [])))
   \<and> (\<forall>n r a. pure_u64 k amt = Inr n \<and> recipient = Some r \<and> r \<noteq> []
                \<and> pure_address k r = Inr a \<longrightarrow>
         createCoinSplitTransaction k coinId amt recipient
           = Inr [SplitCoins GasCoin [Pure (PureU64 n)],
                  TransferObjects [Result 0] (Pure (PureAddress a))])
   \<and> (\<forall>n. pure_u64 k amt = Inr n \<and> (recipient = None \<or> recipient = Some []) \<longrightarrow>
         createCoinSplitTransaction k coinId amt recipient
           = Inr [SplitCoins GasCoin [Pure (PureU64 n)]])"
  unfolding createCoinSplitTransaction_cases
  by (auto simp: named_objects_def split: sum.splits option.splits if_splits)

text \<open>
  With the SDK of the examples: a split of 1000000000 sent to an address, the same split
  with no recipient, and the amount \<open>NaN\<close>, on which the builder throws.
\<close>

theorem createCoinSplitTransaction_outcome_witness:
  "createCoinSplitTransaction example_sdk ''0xc01'' ''1000000000'' (Some example_address)
     = Inr [SplitCoins GasCoin [Pure (PureU64 1000000000)],
            TransferObjects [Result 0] (Pure (PureAddress example_address))]
   \<and> createCoinSplitTransaction example_sdk ''0xc01'' ''1000000000'' None
     = Inr [SplitCoins GasCoin [Pure (PureU64 1000000000)]]
   \<and> createCoinSplitTransaction example_sdk ''0xc01'' ''NaN'' (Some example_address)
     = Inl (JSError ''SyntaxError'' (JSString ''Cannot convert NaN to a BigInt''))"
proof -
  have ne: "example_address \<noteq> []" by (simp add: example_address_def)
  show ?thesis
    using createCoinSplitTransaction_outcome
            [of example_sdk "''0xc01''" "''1000000000''" "Some example_address"]
          createCoinSplitTransaction_outcome
            [of example_sdk "''0xc01''" "''1000000000''" None]
          createCoinSplitTransaction_outcome
            [of example_sdk "''0xc01''" "''NaN''" "Some example_address"
                "JSError ''SyntaxError'' (JSString ''Cannot convert NaN to a BigInt'')"]
    by (simp add: example_sdk_def ne)
qed

text \<open>
  C9 as stated fails: construction throws on the amount \<open>NaN\<close>, which is a string as the
  signature asks; and a recipient given as the empty string gets no transfer.
\<close>

theorem createCoinSplitTransaction_counterexample:
  "createCoinSplitTransaction example_sdk ''0xc01'' ''NaN'' (Some example_address)
     = Inl (JSError ''SyntaxError'' (JSString ''Cannot convert NaN to a BigInt''))
   \<and> createCoinSplitTransaction example_sdk ''0xc01'' ''1000000000'' (Some [])
     = Inr [SplitCoins GasCoin [Pure (PureU64 1000000000)]]"
  by (simp add: createCoinSplitTransaction_cases example_sdk_def)

text \<open>
  C10. The first parameter, \<open>coinObjectId\<close>, does not reach the built transaction: two
  calls that differ only in it build the same transaction, or throw the same value.
\<close>

theorem createCoinSplitTransaction_ignores_coinObjectId:
  "createCoinSplitTransaction k coinId1 amt recipient
     = createCoinSplitTransaction k coinId2 amt recipient"
  by (simp add: createCoinSplitTransaction_def)

section \<open>Properties of the operation hooks\<close>

lemmas eff_defs = bind_def ret_def throw_def try_catch_finally_def setIsLoading_def
  setError_def toast_success_def toast_error_def await_signAndExecute_def

lemma mintNFT_try_cases:
  "mintNFT_try k env sg d =
     (case createMintNFTTransaction k env d of
        Inl e \<Rightarrow> throw e
      | Inr tx \<Rightarrow> sign_then_respond sg tx ''NFT minted successfully!'')"
  by (simp add: mintNFT_try_def sign_then_respond_def split: sum.splits)

lemma levelUp_try_cases:
  "levelUp_try k env sg nftId =
     (case createLevelUpTransaction k env nftId of
        Inl e \<Rightarrow> throw e
      | Inr tx \<Rightarrow> sign_then_respond sg tx
                   (''NFT leveled up successfully! ''
                      @ [CHR 0xC3, CHR 0xB0, CHR 0xC5, CHR 0xB8, CHR 0xC5, CHR 0xA1,
                         CHR 0xE2, CHR 0x82, CHR 0xAC]
                      @ '' Level will update shortly.''))"
  by (simp add: levelUp_try_def sign_then_respond_def split: sum.splits)

lemma mintNFT_orchestrate:
  "mintNFT k env sg d = orchestrate (mintNFT_try k env sg d) ''Failed to mint NFT: ''"
  by (simp add: mintNFT_def orchestrate_def)

lemma levelUp_orchestrate:
  "levelUp k env sg nftId
     = orchestrate (levelUp_try k env sg nftId) ''Failed to level up NFT: ''"
  by (simp add: levelUp_def orchestrate_def)

lemma splitCoin_orchestrate:
  "splitCoin k sg stm coins addr d
     = orchestrate (splitCoin_try k sg stm coins addr d) ''Failed to split coin: ''"
  by (simp add: splitCoin_def orchestrate_def)

lemma orchestrate_throw: "orchestrate (throw e) p s = caught e p [] s"
  by (simp add: orchestrate_def caught_def eff_defs split: sum.splits)

lemma orchestrate_sign:
  "orchestrate (sign_then_respond sg tx t) p s =
    (case sg tx of
       Resolved r \<Rightarrow>
         (Normal \<lparr>success = True, digest = Some (result_digest r), error = None, data = Some r\<rparr>,
          s\<lparr>isLoading := False, error_state := None,
            events := events s @ [SetIsLoading True, SetError None, SignAndExecute tx,
               ToastSuccess t, SetIsLoading False]\<rparr>)
     | Rejected e \<Rightarrow> caught e p [SignAndExecute tx] s
     | Unsettled \<Rightarrow>
         (Pending,
          s\<lparr>isLoading := True, error_state := None,
            events := events s @ [SetIsLoading True, SetError None, SignAndExecute tx]\<rparr>))"
  by (simp add: orchestrate_def sign_then_respond_def caught_def eff_defs
        split: settlement.splits sum.splits)

lemma thrown_by_throw: "thrown_by (throw e) s = Some e"
  by (simp add: thrown_by_def throw_def)

lemma thrown_by_sign:
  "thrown_by (sign_then_respond sg tx t) s = (case sg tx of Rejected e \<Rightarrow> Some e | _ \<Rightarrow> None)"
  by (simp add: thrown_by_def sign_then_respond_def eff_defs split: settlement.splits)


lemma loading_bracket_caught:
  "signer_calls before = 0 \<Longrightarrow> loading_writes before = [] \<Longrightarrow>
   loading_bracket sg s (caught e p before s)"
proof -
  have no_sign: "\<And>es. signer_calls es = 0 \<Longrightarrow> signed es = []"
  proof -
    fix es show "signer_calls es = 0 \<Longrightarrow> signed es = []"
      by (induction es rule: signer_calls.induct) simp_all
  qed
  have signed_app: "\<And>xs ys. signed (xs @ ys) = signed xs @ signed ys"
  proof -
    fix xs ys show "signed (xs @ ys) = signed xs @ signed ys"
      by (induction xs rule: signed.induct) simp_all
  qed
  have lw_app: "\<And>xs ys. loading_writes (xs @ ys) = loading_writes xs @ loading_writes ys"
  proof -
    fix xs ys show "loading_writes (xs @ ys) = loading_writes xs @ loading_writes ys"
      by (induction xs rule: loading_writes.induct) simp_all
  qed
  assume "signer_calls before = 0" "loading_writes before = []"
  then show ?thesis
    by (simp add: caught_def loading_bracket_def new_events_def signed_app lw_app no_sign
          split: sum.splits)
qed

lemma loading_bracket_frame:
  assumes "(\<exists>e. B = throw e) \<or> (\<exists>tx t. B = sign_then_respond sg tx t)"
  shows "loading_bracket sg s (orchestrate B p s)"
  using assms
proof (elim disjE exE)
  fix e assume "B = throw e"
  then show ?thesis
    by (simp add: orchestrate_throw loading_bracket_caught)
next
  fix tx t assume B: "B = sign_then_respond sg tx t"
  show ?thesis
  proof (cases "sg tx")
    case (Rejected e)
    have "loading_bracket sg s (caught e p [SignAndExecute tx] s)"
      by (simp add: caught_def loading_bracket_def new_events_def Rejected split: sum.splits)
    then show ?thesis by (simp add: B orchestrate_sign Rejected)
  qed (simp_all add: B orchestrate_sign loading_bracket_def new_events_def)
qed



lemma build_then_sign_shape:
  "(\<exists>e. (case built of Inl e \<Rightarrow> throw e | Inr tx \<Rightarrow> sign_then_respond sg tx t) = throw e)
   \<or> (\<exists>tx' t'. (case built of Inl e \<Rightarrow> throw e | Inr tx \<Rightarrow> sign_then_respond sg tx t)
          = sign_then_respond sg tx' t')"
proof (cases built)
  case (Inl a)
  then show ?thesis by (intro disjI1 exI [of _ a]) simp
next
  case (Inr b)
  then show ?thesis by (intro disjI2 exI [of _ b] exI [of _ t]) simp
qed

lemma mintNFT_try_shape:
  "(\<exists>e. mintNFT_try k env sg d = throw e)
   \<or> (\<exists>tx t. mintNFT_try k env sg d = sign_then_respond sg tx t)"
  unfolding mintNFT_try_cases by (rule build_then_sign_shape)

lemma levelUp_try_shape:
  "(\<exists>e. levelUp_try k env sg nftId = throw e)
   \<or> (\<exists>tx t. levelUp_try k env sg nftId = sign_then_respond sg tx t)"
  unfolding levelUp_try_cases by (rule build_then_sign_shape)

text \<open>
  The \<open>try\<close> block of \<open>splitCoin\<close>, with its conditions named: it throws one of the three
  pre-flight errors, or the throw of the builder, or goes on to the signer.
\<close>

lemma splitCoin_try_unfolded:
  assumes "coins = Some (c0 # cs')"
  shows "splitCoin_try k sg stm coins addr d =
       (if js_less (foldl (\<lambda>sum c. js_add sum (parseInt (coin_balance c))) (Num 0) (c0 # cs'))
             (js_add (parseInt (stm (amount d))) estimatedGas) then
          throw (JSError ''Error''
            (JSString ''Insufficient balance for split amount plus gas fees''))
        else if js_less (parseInt (coin_balance (foldl (\<lambda>largest c.
              if js_greater (parseInt (coin_balance c)) (parseInt (coin_balance largest))
              then c else largest) c0 cs')))
             (js_add (parseInt (stm (amount d))) estimatedGas) then
          throw (JSError ''Error'' (JSString
            ''Largest coin does not have sufficient balance for split amount plus gas fees''))
        else (case createCoinSplitTransaction k [] (stm (amount d)) addr of
                Inl e \<Rightarrow> throw e
              | Inr tx \<Rightarrow> sign_then_respond sg tx
                           (''Successfully split '' @ amount d @ '' SUI'')))"
proof -
  have tx: "\<And>i. createCoinSplitTransaction k i (stm (amount d)) addr
               = createCoinSplitTransaction k [] (stm (amount d)) addr"
    by (simp add: createCoinSplitTransaction_def)
  show ?thesis
    by (simp add: splitCoin_try_def sign_then_respond_def Let_def assms
          tx [of "coin_coinObjectId _"] split: sum.splits)
qed

lemma splitCoin_try_no_coins:
  "owned coins = [] \<Longrightarrow>
   splitCoin_try k sg stm coins addr d
     = throw (JSError ''Error'' (JSString ''No SUI coins found in your wallet''))"
  by (cases coins) (simp_all add: owned_def splitCoin_try_def)

lemma splitCoin_try_shape:
  "(\<exists>e. splitCoin_try k sg stm coins addr d = throw e)
   \<or> (\<exists>tx t. splitCoin_try k sg stm coins addr d = sign_then_respond sg tx t)"
proof (cases "owned coins")
  case Nil
  then show ?thesis using splitCoin_try_no_coins by blast
next
  case (Cons c0 cs')
  then have coins: "coins = Some (c0 # cs')"
    by (cases coins) (simp_all add: owned_def)
  let ?fails = "js_less (foldl (\<lambda>sum c. js_add sum (parseInt (coin_balance c))) (Num 0)
                          (c0 # cs'))
                 (js_add (parseInt (stm (amount d))) estimatedGas)"
  let ?small = "js_less (parseInt (coin_balance (foldl (\<lambda>largest c.
              if js_greater (parseInt (coin_balance c)) (parseInt (coin_balance largest))
              then c else largest) c0 cs')))
             (js_add (parseInt (stm (amount d))) estimatedGas)"
  note body = splitCoin_try_unfolded [OF coins, of k sg stm addr d]
  show ?thesis
  proof (cases ?fails)
    case True
    then have "splitCoin_try k sg stm coins addr d
        = throw (JSError ''Error''
            (JSString ''Insufficient balance for split amount plus gas fees''))"
      by (simp only: body if_True)
    then show ?thesis by blast
  next
    case enough: False
    show ?thesis
    proof (cases ?small)
      case True
      then have "splitCoin_try k sg stm coins addr d
          = throw (JSError ''Error'' (JSString
              ''Largest coin does not have sufficient balance for split amount plus gas fees''))"
        using enough by (simp only: body if_True if_False)
      then show ?thesis by blast
    next
      case False
      then have "splitCoin_try k sg stm coins addr d
          = (case createCoinSplitTransaction k [] (stm (amount d)) addr of
                Inl e \<Rightarrow> throw e
              | Inr tx \<Rightarrow> sign_then_respond sg tx
                           (''Successfully split '' @ amount d @ '' SUI''))"
        using enough by (simp only: body if_False)
      then show ?thesis
        by (simp only:) (rule build_then_sign_shape)
    qed
  qed
qed


text \<open>The examples: what the builders return on them, and two classifications.\<close>

lemma example_mint_built:
  "createMintNFTTransaction example_sdk None example_mint
     = Inr [MoveCall (CONTRACT_FUNCTIONS_MINT None)
              [Pure (PureString ''Sword''), Pure (PureString ''A sword''),
               Pure (PureString ''https://example.com/s.png'')]]"
  by (simp add: createMintNFTTransaction_def example_sdk_def example_mint_def
        tx_pure_string_def tx_moveCall_def and_then_def new_Transaction_def)

lemma example_levelUp_built:
  "createLevelUpTransaction example_sdk None example_object
     = Inr [MoveCall (CONTRACT_FUNCTIONS_LEVEL_UP None) [ObjectRef example_object]]"
  by (simp add: createLevelUpTransaction_def example_sdk_def
        tx_object_def tx_moveCall_def and_then_def new_Transaction_def)

lemma user_rejected_classified:
  "handleTransactionError (JSError ''Error'' (JSString ''User rejected the request''))
     = Inr \<lparr>message = ''Transaction was rejected by the user'', code = Some ''USER_REJECTED'',
             details = Some (JSError ''Error'' (JSString ''User rejected the request''))\<rparr>"
  by simp

lemma cannot_convert_classified:
  "handleTransactionError (JSError ''SyntaxError'' (JSString ''Cannot convert NaN to a BigInt''))
     = Inr \<lparr>message = ''Cannot convert NaN to a BigInt'', code = Some ''TRANSACTION_ERROR'',
             details = Some (JSError ''SyntaxError''
                         (JSString ''Cannot convert NaN to a BigInt''))\<rparr>"
  by simp

lemma preflight_messages_classified:
  "handleTransactionError (JSError ''Error'' (JSString ''No SUI coins found in your wallet''))
     = Inr \<lparr>message = ''No SUI coins found in your wallet'', code = Some ''TRANSACTION_ERROR'',
        details = Some (JSError ''Error'' (JSString ''No SUI coins found in your wallet''))\<rparr>"
  "handleTransactionError
      (JSError ''Error'' (JSString ''Insufficient balance for split amount plus gas fees''))
     = Inr \<lparr>message = ''Insufficient balance for split amount plus gas fees'',
        code = Some ''TRANSACTION_ERROR'',
        details = Some (JSError ''Error''
                    (JSString ''Insufficient balance for split amount plus gas fees''))\<rparr>"
  "handleTransactionError (JSError ''Error'' (JSString
       ''Largest coin does not have sufficient balance for split amount plus gas fees''))
     = Inr \<lparr>message = ''Largest coin does not have sufficient balance for split amount plus gas fees'',
        code = Some ''TRANSACTION_ERROR'',
        details = Some (JSError ''Error'' (JSString
          ''Largest coin does not have sufficient balance for split amount plus gas fees''))\<rparr>"
  by simp_all

lemma bit_length_le: "n < 2 ^ k \<Longrightarrow> bit_length n \<le> k"
proof (induction k arbitrary: n)
  case 0
  then show ?case by (simp add: bit_length.simps [of n])
next
  case (Suc k)
  show ?case
  proof (cases "n \<le> 0")
    case True
    then show ?thesis by (simp add: bit_length.simps [of n])
  next
    case False
    have "n div 2 < 2 ^ k" using Suc.prems by simp
    then have "bit_length (n div 2) \<le> k" by (rule Suc.IH)
    then show ?thesis using False by (simp add: bit_length.simps [of n])
  qed
qed

lemma to_number_safe: "\<bar>n\<bar> \<le> safe_bound \<Longrightarrow> to_number n = Num n"
proof -
  assume bound: "\<bar>n\<bar> \<le> safe_bound"
  then have "\<bar>n\<bar> < 2 ^ 54" by (simp add: safe_bound_def)
  then have "bit_length \<bar>n\<bar> \<le> 54" by (rule bit_length_le)
  then show ?thesis
    using bound by (simp add: to_number_def round_magnitude_def safe_bound_def Let_def)
qed

lemma example_parses:
  "parseInt ''20000000000'' = Num 20000000000"
  "parseInt ''3000000000'' = Num 3000000000"
  "parseInt ''2000000000'' = Num 2000000000"
  "parseInt ''1000000000'' = Num 1000000000"
  "parseInt ''4995000000'' = Num 4995000000"
  "parseInt ''-1000000000'' = Num (- 1000000000)"
  "parseInt ''NaN'' = NaN"
  by code_simp+

lemmas hook_eval = mintNFT_orchestrate levelUp_orchestrate splitCoin_orchestrate
  mintNFT_try_cases levelUp_try_cases example_mint_built example_levelUp_built
  orchestrate_sign orchestrate_throw caught_def idle_def thrown_by_sign thrown_by_throw


lemma example_split_no_coins:
  "splitCoin_try example_sdk sg stm (Some []) addr sd
     = throw (JSError ''Error'' (JSString ''No SUI coins found in your wallet''))"
  by (simp add: splitCoin_try_no_coins owned_def)







text \<open>
  C7. Each invocation of \<open>mintNFT\<close>, \<open>levelUp\<close> and \<open>splitCoin\<close> first writes \<open>true\<close> to
  \<open>isLoading\<close>. It stays unsettled exactly when it has called the signer and the signer
  has not settled; then \<open>true\<close> is the only write and the cell holds \<open>true\<close>. In every
  other case, by the success path, by the failure path, or when the \<open>catch\<close> clause
  itself throws, its last act was the single write of \<open>false\<close>, and the cell holds
  \<open>false\<close>.
\<close>

theorem hooks_loading_bracket:
  "loading_bracket sg s (mintNFT k env sg d s)
   \<and> loading_bracket sg s (levelUp k env sg nftId s)
   \<and> loading_bracket sg s (splitCoin k sg stm coins addr sd s)"
proof (intro conjI)
  show "loading_bracket sg s (mintNFT k env sg d s)"
    unfolding mintNFT_orchestrate by (rule loading_bracket_frame [OF mintNFT_try_shape])
  show "loading_bracket sg s (levelUp k env sg nftId s)"
    unfolding levelUp_orchestrate by (rule loading_bracket_frame [OF levelUp_try_shape])
  show "loading_bracket sg s (splitCoin k sg stm coins addr sd s)"
    unfolding splitCoin_orchestrate by (rule loading_bracket_frame [OF splitCoin_try_shape])
qed

text \<open>
  A mint that succeeds, a level-up that the wallet rejects, a split that fails its
  pre-flight check, and a mint whose signer never answers.
\<close>

theorem hooks_loading_bracket_witness:
  "mintNFT example_sdk None (\<lambda>tx. Resolved (SignResult ''9xQeWvG816bUx9EP'' JSNull))
        example_mint idle
     = (Normal \<lparr>success = True, digest = Some ''9xQeWvG816bUx9EP'', error = None,
                data = Some (SignResult ''9xQeWvG816bUx9EP'' JSNull)\<rparr>,
        \<lparr>isLoading = False, error_state = None,
          events = [SetIsLoading True, SetError None,
            SignAndExecute [MoveCall (CONTRACT_FUNCTIONS_MINT None)
               [Pure (PureString ''Sword''), Pure (PureString ''A sword''),
                Pure (PureString ''https://example.com/s.png'')]],
            ToastSuccess ''NFT minted successfully!'', SetIsLoading False]\<rparr>)
   \<and> levelUp example_sdk None
        (\<lambda>tx. Rejected (JSError ''Error'' (JSString ''User rejected the request'')))
        example_object idle
     = (Normal \<lparr>success = False, digest = None,
                error = Some ''Transaction was rejected by the user'', data = None\<rparr>,
        \<lparr>isLoading = False, error_state = Some ''Transaction was rejected by the user'',
          events = [SetIsLoading True, SetError None,
            SignAndExecute [MoveCall (CONTRACT_FUNCTIONS_LEVEL_UP None)
               [ObjectRef example_object]],
            SetError (Some ''Transaction was rejected by the user''),
            ToastError ''Failed to level up NFT: Transaction was rejected by the user'',
            SetIsLoading False]\<rparr>)
   \<and> splitCoin example_sdk (\<lambda>tx. Resolved (SignResult ''9xQeWvG816bUx9EP'' JSNull))
        (\<lambda>a. ''1000000000'') (Some []) (Some example_address)
        \<lparr>amount = ''1'', coinObjectId = []\<rparr> idle
     = (Normal \<lparr>success = False, digest = None,
                error = Some ''No SUI coins found in your wallet'', data = None\<rparr>,
        \<lparr>isLoading = False, error_state = Some ''No SUI coins found in your wallet'',
          events = [SetIsLoading True, SetError None,
            SetError (Some ''No SUI coins found in your wallet''),
            ToastError ''Failed to split coin: No SUI coins found in your wallet'',
            SetIsLoading False]\<rparr>)
   \<and> mintNFT example_sdk None (\<lambda>tx. Unsettled) example_mint idle
     = (Pending,
        \<lparr>isLoading = True, error_state = None,
          events = [SetIsLoading True, SetError None,
            SignAndExecute [MoveCall (CONTRACT_FUNCTIONS_MINT None)
               [Pure (PureString ''Sword''), Pure (PureString ''A sword''),
                Pure (PureString ''https://example.com/s.png'')]]]\<rparr>)
   \<and> loading_bracket (\<lambda>tx. Unsettled) idle
        (mintNFT example_sdk None (\<lambda>tx. Unsettled) example_mint idle)"
proof -
  have a: "mintNFT example_sdk None (\<lambda>tx. Resolved (SignResult ''9xQeWvG816bUx9EP'' JSNull))
        example_mint idle
     = (Normal \<lparr>success = True, digest = Some ''9xQeWvG816bUx9EP'', error = None,
                data = Some (SignResult ''9xQeWvG816bUx9EP'' JSNull)\<rparr>,
        \<lparr>isLoading = False, error_state = None,
          events = [SetIsLoading True, SetError None,
            SignAndExecute [MoveCall (CONTRACT_FUNCTIONS_MINT None)
               [Pure (PureString ''Sword''), Pure (PureString ''A sword''),
                Pure (PureString ''https://example.com/s.png'')]],
            ToastSuccess ''NFT minted successfully!'', SetIsLoading False]\<rparr>)"
    by (simp add: hook_eval)
  have b: "levelUp example_sdk None
        (\<lambda>tx. Rejected (JSError ''Error'' (JSString ''User rejected the request'')))
        example_object idle
     = (Normal \<lparr>success = False, digest = None,
                error = Some ''Transaction was rejected by the user'', data = None\<rparr>,
        \<lparr>isLoading = False, error_state = Some ''Transaction was rejected by the user'',
          events = [SetIsLoading True, SetError None,
            SignAndExecute [MoveCall (CONTRACT_FUNCTIONS_LEVEL_UP None)
               [ObjectRef example_object]],
            SetError (Some ''Transaction was rejected by the user''),
            ToastError ''Failed to level up NFT: Transaction was rejected by the user'',
            SetIsLoading False]\<rparr>)"
    by (simp add: hook_eval)
  have c: "splitCoin example_sdk (\<lambda>tx. Resolved (SignResult ''9xQeWvG816bUx9EP'' JSNull))
        (\<lambda>a. ''1000000000'') (Some []) (Some example_address)
        \<lparr>amount = ''1'', coinObjectId = []\<rparr> idle
     = (Normal \<lparr>success = False, digest = None,
                error = Some ''No SUI coins found in your wallet'', data = None\<rparr>,
        \<lparr>isLoading = False, error_state = Some ''No SUI coins found in your wallet'',
          events = [SetIsLoading True, SetError None,
            SetError (Some ''No SUI coins found in your wallet''),
            ToastError ''Failed to split coin: No SUI coins found in your wallet'',
            SetIsLoading False]\<rparr>)"
    by (simp add: example_split_no_coins hook_eval)
  have d: "mintNFT example_sdk None (\<lambda>tx. Unsettled) example_mint idle
     = (Pending,
        \<lparr>isLoading = True, error_state = None,
          events = [SetIsLoading True, SetError None,
            SignAndExecute [MoveCall (CONTRACT_FUNCTIONS_MINT None)
               [Pure (PureString ''Sword''), Pure (PureString ''A sword''),
                Pure (PureString ''https://example.com/s.png'')]]]\<rparr>)"
    by (simp add: hook_eval)
  have e: "loading_bracket (\<lambda>tx. Unsettled) idle
        (mintNFT example_sdk None (\<lambda>tx. Unsettled) example_mint idle)"
    using hooks_loading_bracket [of "\<lambda>tx. Unsettled" idle example_sdk None example_mint]
    by (rule conjunct1)
  show ?thesis
    using e by (simp only: a b c d simp_thms)
qed

section \<open>Properties of the pre-flight balance check\<close>

lemma total_balance_sum:
  "map (\<lambda>c. parseInt (coin_balance c)) cs = map Num bs \<Longrightarrow> \<forall>b\<in>set bs. 0 \<le> b \<Longrightarrow>
   0 \<le> z \<Longrightarrow> z + sum_list bs \<le> safe_bound \<Longrightarrow>
   foldl (\<lambda>sum c. js_add sum (parseInt (coin_balance c))) (Num z) cs = Num (z + sum_list bs)"
proof (induction cs arbitrary: z bs)
  case Nil
  then show ?case by simp
next
  case (Cons c cs)
  then obtain b bs' where bs: "bs = b # bs'" by (cases bs) auto
  with Cons.prems have hd: "parseInt (coin_balance c) = Num b"
    and tl: "map (\<lambda>c. parseInt (coin_balance c)) cs = map Num bs'" by auto
  have nonneg: "0 \<le> b" "\<forall>x\<in>set bs'. 0 \<le> x"
    using Cons.prems(2) by (simp_all add: bs)
  have rest: "0 \<le> sum_list bs'"
    using nonneg(2) by (simp add: sum_list_nonneg)
  have "\<bar>z + b\<bar> \<le> safe_bound"
    using Cons.prems(3,4) nonneg(1) rest by (simp add: bs)
  then have step: "to_number (z + b) = Num (z + b)"
    by (rule to_number_safe)
  have "foldl (\<lambda>sum c. js_add sum (parseInt (coin_balance c))) (Num (z + b)) cs
          = Num (z + b + sum_list bs')"
    using Cons.prems(3,4) nonneg by (intro Cons.IH [OF tl]) (simp_all add: bs)
  then show ?case
    by (simp add: bs hd step add.assoc)
qed

lemma largest_coin_max:
  "map (\<lambda>c. parseInt (coin_balance c)) cs = map Num bs \<Longrightarrow>
   parseInt (coin_balance c0) = Num b0 \<Longrightarrow>
   parseInt (coin_balance (foldl (\<lambda>largest c.
       if js_greater (parseInt (coin_balance c)) (parseInt (coin_balance largest))
       then c else largest) c0 cs)) = Num (Max (set (b0 # bs)))"
proof (induction cs arbitrary: c0 b0 bs)
  case Nil
  then show ?case by simp
next
  case (Cons c cs)
  then obtain b bs' where bs: "bs = b # bs'" by (cases bs) auto
  with Cons.prems have hd: "parseInt (coin_balance c) = Num b"
    and tl: "map (\<lambda>c. parseInt (coin_balance c)) cs = map Num bs'" by auto
  let ?f = "\<lambda>largest c.
       if js_greater (parseInt (coin_balance c)) (parseInt (coin_balance largest))
       then c else largest"
  have ge: "b \<le> Max (set (b # bs'))" by simp
  have mx: "Max (set (b0 # b # bs')) = max b0 (Max (set (b # bs')))"
    using Max_insert [of "set (b # bs')" b0] by simp
  show ?case
  proof (cases "b0 < b")
    case True
    have step: "?f c0 c = c"
      using True by (simp add: hd Cons.prems(2) js_greater_def)
    have "b0 \<le> Max (set (b # bs'))"
      using True ge by linarith
    then have "Max (set (b0 # b # bs')) = Max (set (b # bs'))"
      by (simp only: mx max_absorb2)
    then show ?thesis
      using Cons.IH [OF tl hd] by (simp only: bs foldl_Cons step)
  next
    case False
    have step: "?f c0 c = c0"
      using False by (simp add: hd Cons.prems(2) js_greater_def)
    have "Max (set (b0 # b # bs')) = Max (set (b0 # bs'))"
    proof (cases "bs' = []")
      case True
      then show ?thesis using False by (simp add: max_def)
    next
      case nonempty: False
      have "Max (set (b0 # b # bs')) = max b0 (max b (Max (set bs')))"
        using nonempty by simp
      also have "\<dots> = max b0 (Max (set bs'))"
        using False by (simp add: max_def)
      also have "\<dots> = Max (set (b0 # bs'))"
        using nonempty by simp
      finally show ?thesis .
    qed
    then show ?thesis
      using Cons.IH [OF tl Cons.prems(2)] by (simp only: bs foldl_Cons step)
  qed
qed

lemma splitCoin_try_preflight:
  assumes bal: "map (\<lambda>c. parseInt (coin_balance c)) cs = map Num bs"
    and nonneg: "\<forall>b\<in>set bs. 0 \<le> b"
    and tot: "sum_list bs < safe_bound"
    and amt: "parseInt (stm (amount d)) = Num a"
    and lo: "- safe_bound < a"
    and hi: "a + 10000000 < safe_bound"
    and ne: "cs \<noteq> []"
  shows "splitCoin_try k sg stm (Some cs) addr d =
     (if sum_list bs < a + 10000000 then
        throw (JSError ''Error''
          (JSString ''Insufficient balance for split amount plus gas fees''))
      else if Max (set bs) < a + 10000000 then
        throw (JSError ''Error'' (JSString
          ''Largest coin does not have sufficient balance for split amount plus gas fees''))
      else (case createCoinSplitTransaction k anyId (stm (amount d)) addr of
              Inl e \<Rightarrow> throw e
            | Inr tx \<Rightarrow> sign_then_respond sg tx
                         (''Successfully split '' @ amount d @ '' SUI'')))"
proof -
  obtain c0 cs' where cs: "cs = c0 # cs'" using ne by (cases cs) auto
  then obtain b0 bs' where bs: "bs = b0 # bs'" using bal by (cases bs) auto
  have hd: "parseInt (coin_balance c0) = Num b0"
    and tl: "map (\<lambda>c. parseInt (coin_balance c)) cs' = map Num bs'"
    using bal by (auto simp: cs bs)
  have total: "foldl (\<lambda>sum c. js_add sum (parseInt (coin_balance c))) (Num 0) cs
                 = Num (sum_list bs)"
    using total_balance_sum [OF bal nonneg, of 0] tot by simp
  have largest: "parseInt (coin_balance (foldl (\<lambda>largest c.
       if js_greater (parseInt (coin_balance c)) (parseInt (coin_balance largest))
       then c else largest) c0 cs')) = Num (Max (set bs))"
    using largest_coin_max [OF tl hd] by (simp add: bs)
  have need: "js_add (parseInt (stm (amount d))) estimatedGas = Num (a + 10000000)"
    using lo hi by (simp add: amt estimatedGas_def to_number_safe safe_bound_def)
  have tx: "createCoinSplitTransaction k [] (stm (amount d)) addr
               = createCoinSplitTransaction k anyId (stm (amount d)) addr"
    by (simp add: createCoinSplitTransaction_def)
  show ?thesis
    unfolding splitCoin_try_unfolded [OF refl [of "Some (c0 # cs')"], folded cs]
    by (simp only: total largest need tx js_less.simps)
qed

lemma signer_calls_append: "signer_calls (xs @ ys) = signer_calls xs + signer_calls ys"
  by (induction xs rule: signer_calls.induct) simp_all

text \<open>
  C2, as amended. Let the balances of the owned coins parse to the integers \<open>bs\<close>, none
  negative and their sum below \<open>2^53\<close>, and the requested amount to \<open>a\<close>, with \<open>a\<close> above
  \<open>-2^53\<close> and \<open>a + 10000000\<close> below \<open>2^53\<close>. If there is no owned coin, or the balances
  sum to less than \<open>a + 10000000\<close>, or the largest balance is less than \<open>a + 10000000\<close>,
  then \<open>splitCoin\<close> returns the failure response whose error is the message of the
  failed check, the signer is not called, and the classifier gives that failure the
  code \<open>TRANSACTION_ERROR\<close>. Otherwise the transaction is built: when the builder
  returns, the signer is called exactly once, with the transaction built; when the
  builder throws, the signer is not called and the throw is handled as a failure.
\<close>

theorem splitCoin_preflight:
  assumes "map (\<lambda>c. parseInt (coin_balance c)) (owned coins) = map Num bs"
    and "\<forall>b\<in>set bs. 0 \<le> b"
    and "sum_list bs < safe_bound"
    and "parseInt (stm (amount sd)) = Num a"
    and "- safe_bound < a"
    and "a + 10000000 < safe_bound"
  shows "(if bs = [] \<or> sum_list bs < a + 10000000 \<or> Max (set bs) < a + 10000000 then
            (\<exists>m. m = (if bs = [] then ''No SUI coins found in your wallet''
                       else if sum_list bs < a + 10000000 then
                         ''Insufficient balance for split amount plus gas fees''
                       else ''Largest coin does not have sufficient balance for split amount plus gas fees'')
                \<and> fst (splitCoin k sg stm coins addr sd s)
                    = Normal \<lparr>success = False, digest = None, error = Some m, data = None\<rparr>
                \<and> handleTransactionError (JSError ''Error'' (JSString m))
                    = Inr \<lparr>message = m, code = Some ''TRANSACTION_ERROR'',
                           details = Some (JSError ''Error'' (JSString m))\<rparr>)
            \<and> signer_calls (new_events s (snd (splitCoin k sg stm coins addr sd s))) = 0
          else
            (case createCoinSplitTransaction k anyId (stm (amount sd)) addr of
               Inr tx \<Rightarrow>
                 signer_calls (new_events s (snd (splitCoin k sg stm coins addr sd s))) = 1
                 \<and> signed (new_events s (snd (splitCoin k sg stm coins addr sd s))) = [tx]
             | Inl e \<Rightarrow>
                 signer_calls (new_events s (snd (splitCoin k sg stm coins addr sd s))) = 0
                 \<and> failure_handled e (splitCoin k sg stm coins addr sd s)))"
proof (cases "owned coins = []")
  case True
  then have bs: "bs = []" using assms(1) by simp
  show ?thesis
    using preflight_messages_classified(1)
    by (simp add: bs splitCoin_orchestrate splitCoin_try_no_coins [OF True] orchestrate_throw
          caught_def new_events_def del: handleTransactionError.simps)
next
  case False
  then obtain cs where coins: "coins = Some cs" and ne: "cs \<noteq> []"
    by (cases coins) (simp_all add: owned_def)
  have bal: "map (\<lambda>c. parseInt (coin_balance c)) cs = map Num bs"
    using assms(1) by (simp add: coins owned_def)
  have bs: "bs \<noteq> []" using bal ne by auto
  note pre = splitCoin_try_preflight
      [where stm = stm and d = sd and sg = sg and addr = addr and anyId = anyId and k = k,
       OF bal assms(2) assms(3) assms(4) assms(5) assms(6) ne]
  show ?thesis
  proof (cases "sum_list bs < a + 10000000")
    case True
    then have body: "splitCoin_try k sg stm coins addr sd
        = throw (JSError ''Error''
            (JSString ''Insufficient balance for split amount plus gas fees''))"
      using pre by (simp only: coins if_True)
    have cond: "bs = [] \<or> sum_list bs < a + 10000000 \<or> Max (set bs) < a + 10000000"
      using True by blast
    show ?thesis
      using bs True preflight_messages_classified(2)
      by (subst if_P [OF cond])
         (simp add: body splitCoin_orchestrate orchestrate_throw caught_def new_events_def
            del: handleTransactionError.simps)
  next
    case enough: False
    show ?thesis
    proof (cases "Max (set bs) < a + 10000000")
      case True
      then have body: "splitCoin_try k sg stm coins addr sd
          = throw (JSError ''Error'' (JSString
              ''Largest coin does not have sufficient balance for split amount plus gas fees''))"
        using pre enough by (simp only: coins if_True if_False)
      have cond: "bs = [] \<or> sum_list bs < a + 10000000 \<or> Max (set bs) < a + 10000000"
        using True by blast
      show ?thesis
        using bs enough preflight_messages_classified(3)
        by (subst if_P [OF cond])
           (simp add: body splitCoin_orchestrate orchestrate_throw caught_def new_events_def
              del: handleTransactionError.simps)
    next
      case False
      then have body: "splitCoin_try k sg stm coins addr sd
          = (case createCoinSplitTransaction k anyId (stm (amount sd)) addr of
               Inl e \<Rightarrow> throw e
             | Inr tx \<Rightarrow> sign_then_respond sg tx
                          (''Successfully split '' @ amount sd @ '' SUI''))"
        using pre enough by (simp only: coins if_False)
      have cond: "\<not> (bs = [] \<or> sum_list bs < a + 10000000 \<or> Max (set bs) < a + 10000000)"
        using bs enough False by blast
      show ?thesis
      proof (cases "createCoinSplitTransaction k anyId (stm (amount sd)) addr")
        case (Inl e)
        then show ?thesis
          by (subst if_not_P [OF cond])
             (simp add: body splitCoin_orchestrate orchestrate_throw caught_def new_events_def
                failure_handled_def split: sum.splits del: handleTransactionError.simps)
      next
        case (Inr tx)
        show ?thesis
        proof (cases "sg tx")
          case (Rejected e)
          then show ?thesis
            by (subst if_not_P [OF cond])
               (simp add: body Inr splitCoin_orchestrate orchestrate_sign caught_def
                  new_events_def split: sum.splits del: handleTransactionError.simps)
        qed (subst if_not_P [OF cond],
             simp add: body Inr splitCoin_orchestrate orchestrate_sign new_events_def)+
      qed
    qed
  qed
qed

text \<open>
  The examples of the specification, with the SDK of the examples: a coin of 20 SUI covers
  a split of 1 SUI, and the signer is called once with the transaction built; coins of
  3 and 2 SUI do not cover 4.995 SUI plus the gas estimate, and the signer is not called;
  a negative amount passes the checks, the builder throws on it, and the signer is not
  called.
\<close>

theorem splitCoin_preflight_witness:
  "signer_calls (new_events idle
      (snd (splitCoin example_sdk (\<lambda>tx. Resolved (SignResult ''9xQeWvG816bUx9EP'' JSNull))
              (\<lambda>a. ''1000000000'') (Some [Coin ''0xc01'' ''20000000000''])
              (Some example_address) \<lparr>amount = ''1'', coinObjectId = []\<rparr> idle))) = 1
   \<and> signed (new_events idle
      (snd (splitCoin example_sdk (\<lambda>tx. Resolved (SignResult ''9xQeWvG816bUx9EP'' JSNull))
              (\<lambda>a. ''1000000000'') (Some [Coin ''0xc01'' ''20000000000''])
              (Some example_address) \<lparr>amount = ''1'', coinObjectId = []\<rparr> idle)))
       = [SplitCoins GasCoin [Pure (PureU64 1000000000)],
          TransferObjects [Result 0] (Pure (PureAddress example_address))] # []
   \<and> signer_calls (new_events idle
      (snd (splitCoin example_sdk (\<lambda>tx. Resolved (SignResult ''9xQeWvG816bUx9EP'' JSNull))
              (\<lambda>a. ''4995000000'')
              (Some [Coin ''0xc01'' ''3000000000'', Coin ''0xc02'' ''2000000000''])
              (Some example_address) \<lparr>amount = ''4.995'', coinObjectId = []\<rparr> idle))) = 0
   \<and> fst (splitCoin example_sdk (\<lambda>tx. Resolved (SignResult ''9xQeWvG816bUx9EP'' JSNull))
              (\<lambda>a. ''4995000000'')
              (Some [Coin ''0xc01'' ''3000000000'', Coin ''0xc02'' ''2000000000''])
              (Some example_address) \<lparr>amount = ''4.995'', coinObjectId = []\<rparr> idle)
       = Normal \<lparr>success = False, digest = None,
                 error = Some ''Insufficient balance for split amount plus gas fees'',
                 data = None\<rparr>
   \<and> signer_calls (new_events idle
      (snd (splitCoin example_sdk (\<lambda>tx. Resolved (SignResult ''9xQeWvG816bUx9EP'' JSNull))
              (\<lambda>a. ''-1000000000'') (Some [Coin ''0xc01'' ''20000000000''])
              (Some example_address) \<lparr>amount = ''-1'', coinObjectId = []\<rparr> idle))) = 0
   \<and> fst (splitCoin example_sdk (\<lambda>tx. Resolved (SignResult ''9xQeWvG816bUx9EP'' JSNull))
              (\<lambda>a. ''-1000000000'') (Some [Coin ''0xc01'' ''20000000000''])
              (Some example_address) \<lparr>amount = ''-1'', coinObjectId = []\<rparr> idle)
       = Normal \<lparr>success = False, digest = None,
                 error = Some ''Invalid u64 value: -1000000000'', data = None\<rparr>"
proof -
  let ?sg = "\<lambda>tx :: Transaction. Resolved (SignResult ''9xQeWvG816bUx9EP'' JSNull)"
  have b1: "map (\<lambda>c. parseInt (coin_balance c)) (owned (Some [Coin ''0xc01'' ''20000000000'']))
              = map Num [20000000000]"
    by (simp add: owned_def example_parses)
  have a1: "parseInt ((\<lambda>a. ''1000000000'') (amount \<lparr>amount = ''1'', coinObjectId = []\<rparr>))
              = Num 1000000000"
    by (simp add: example_parses)
  have b2: "map (\<lambda>c. parseInt (coin_balance c))
              (owned (Some [Coin ''0xc01'' ''3000000000'', Coin ''0xc02'' ''2000000000'']))
              = map Num [3000000000, 2000000000]"
    by (simp add: owned_def example_parses)
  have a2: "parseInt ((\<lambda>a. ''4995000000'') (amount \<lparr>amount = ''4.995'', coinObjectId = []\<rparr>))
              = Num 4995000000"
    by (simp add: example_parses)
  have a3: "parseInt ((\<lambda>a. ''-1000000000'') (amount \<lparr>amount = ''-1'', coinObjectId = []\<rparr>))
              = Num (- 1000000000)"
    by (simp add: example_parses)
  have n1: "\<forall>b\<in>set [20000000000 :: int]. 0 \<le> b" by simp
  have n2: "\<forall>b\<in>set [3000000000, 2000000000 :: int]. 0 \<le> b" by simp
  have built: "createCoinSplitTransaction example_sdk [] ''1000000000'' (Some example_address)
                 = Inr [SplitCoins GasCoin [Pure (PureU64 1000000000)],
                        TransferObjects [Result 0] (Pure (PureAddress example_address))]"
    "createCoinSplitTransaction example_sdk [] ''-1000000000'' (Some example_address)
                 = Inl (JSError ''TypeError'' (JSString ''Invalid u64 value: -1000000000''))"
    by (simp_all add: createCoinSplitTransaction_cases example_sdk_def example_address_def)
  have first: "signer_calls (new_events idle
      (snd (splitCoin example_sdk ?sg (\<lambda>a. ''1000000000'') (Some [Coin ''0xc01'' ''20000000000''])
              (Some example_address) \<lparr>amount = ''1'', coinObjectId = []\<rparr> idle))) = 1
   \<and> signed (new_events idle
      (snd (splitCoin example_sdk ?sg (\<lambda>a. ''1000000000'') (Some [Coin ''0xc01'' ''20000000000''])
              (Some example_address) \<lparr>amount = ''1'', coinObjectId = []\<rparr> idle)))
       = [SplitCoins GasCoin [Pure (PureU64 1000000000)],
          TransferObjects [Result 0] (Pure (PureAddress example_address))] # []"
    using splitCoin_preflight [OF b1 n1 _ a1,
            where sg = ?sg and addr = "Some example_address" and s = idle
              and anyId = "[]" and k = example_sdk]
    by (simp add: safe_bound_def built)
  have second: "signer_calls (new_events idle
      (snd (splitCoin example_sdk ?sg (\<lambda>a. ''4995000000'')
              (Some [Coin ''0xc01'' ''3000000000'', Coin ''0xc02'' ''2000000000''])
              (Some example_address) \<lparr>amount = ''4.995'', coinObjectId = []\<rparr> idle))) = 0
   \<and> fst (splitCoin example_sdk ?sg (\<lambda>a. ''4995000000'')
              (Some [Coin ''0xc01'' ''3000000000'', Coin ''0xc02'' ''2000000000''])
              (Some example_address) \<lparr>amount = ''4.995'', coinObjectId = []\<rparr> idle)
       = Normal \<lparr>success = False, digest = None,
                 error = Some ''Insufficient balance for split amount plus gas fees'',
                 data = None\<rparr>"
    using splitCoin_preflight [OF b2 n2 _ a2,
            where sg = ?sg and addr = "Some example_address" and s = idle
              and anyId = "[]" and k = example_sdk]
    by (simp add: safe_bound_def)
  have third: "signer_calls (new_events idle
      (snd (splitCoin example_sdk ?sg (\<lambda>a. ''-1000000000'') (Some [Coin ''0xc01'' ''20000000000''])
              (Some example_address) \<lparr>amount = ''-1'', coinObjectId = []\<rparr> idle))) = 0
   \<and> fst (splitCoin example_sdk ?sg (\<lambda>a. ''-1000000000'') (Some [Coin ''0xc01'' ''20000000000''])
              (Some example_address) \<lparr>amount = ''-1'', coinObjectId = []\<rparr> idle)
       = Normal \<lparr>success = False, digest = None,
                 error = Some ''Invalid u64 value: -1000000000'', data = None\<rparr>"
    using splitCoin_preflight [OF b1 n1 _ a3,
            where sg = ?sg and addr = "Some example_address" and s = idle
              and anyId = "[]" and k = example_sdk]
    by (simp add: safe_bound_def built failure_handled_def)
  show ?thesis
    using first second third by (simp only: simp_thms)
qed

text \<open>
  C2 as stated fails: on the specification's own example the error that the pre-flight
  check throws is classified \<open>TRANSACTION_ERROR\<close>; no path of the source produces a code
  \<open>INSUFFICIENT_BALANCE\<close>.
\<close>

theorem splitCoin_preflight_code_counterexample:
  "fst (splitCoin_try example_sdk (\<lambda>tx. Resolved (SignResult ''9xQeWvG816bUx9EP'' JSNull))
          (\<lambda>a. ''4995000000'')
          (Some [Coin ''0xc01'' ''3000000000'', Coin ''0xc02'' ''2000000000''])
          (Some example_address) \<lparr>amount = ''4.995'', coinObjectId = []\<rparr>
          \<lparr>isLoading = True, error_state = None, events = []\<rparr>)
     = Throw (JSError ''Error''
         (JSString ''Insufficient balance for split amount plus gas fees''))
   \<and> handleTransactionError (JSError ''Error''
         (JSString ''Insufficient balance for split amount plus gas fees''))
     = Inr \<lparr>message = ''Insufficient balance for split amount plus gas fees'',
            code = Some ''TRANSACTION_ERROR'',
            details = Some (JSError ''Error''
              (JSString ''Insufficient balance for split amount plus gas fees''))\<rparr>
   \<and> ''TRANSACTION_ERROR'' \<noteq> ''INSUFFICIENT_BALANCE''"
proof -
  have total: "js_add (js_add (Num 0) (Num 3000000000)) (Num 2000000000) = Num 5000000000"
    by (simp add: to_number_safe safe_bound_def)
  have need: "js_add (Num 4995000000) estimatedGas = Num 5005000000"
    by (simp add: estimatedGas_def to_number_safe safe_bound_def)
  show ?thesis
    by (simp add: splitCoin_try_unfolded example_parses total need throw_def
          del: js_add.simps)
qed

text \<open>
  Outside that range the numbers are doubles. \<open>parseInt\<close> gives the nearest double, ties
  to even, and a balance of 9007199254740999 reads as 9007199254741000: it is not less
  than 9007199244741000 plus the gas estimate, so the first check passes where the
  integers would fail it.
\<close>

lemma parseInt_nearest_double:
  "parseInt ''9007199254740999'' = Num 9007199254741000"
  "parseInt ''9007199254740993'' = Num 9007199254740992"
  "parseInt ''9007199244741000'' = Num 9007199244741000"
  "js_add (Num 9007199254740992) (Num 3) = Num 9007199254740996"
  "js_less (parseInt ''9007199254740999'')
           (js_add (parseInt ''9007199244741000'') estimatedGas) = False"
  by code_simp+

section \<open>Properties of the confirmation poller\<close>

declare poll.simps [simp del]

lemma poll_timeout:
  "\<not> int elapsed < t \<Longrightarrow> poll c d t elapsed issued = (Throw timeout_error, issued)"
  by (simp add: poll.simps timeout_error_def)

lemma poll_done:
  "int elapsed < t \<Longrightarrow> poll_once (getTransactionBlock c d (length issued)) = Done r \<Longrightarrow>
   poll c d t elapsed issued = (r, issued @ [elapsed])"
  by (simp add: poll.simps [of c d t elapsed issued])

lemma poll_continue:
  "int elapsed < t \<Longrightarrow> poll_once (getTransactionBlock c d (length issued)) = Continue \<Longrightarrow>
   poll c d t elapsed issued =
     poll c d t (elapsed + query_ms c (length issued) + 1000 + timer_lag_ms c (length issued))
       (issued @ [elapsed])"
  by (simp add: poll.simps [of c d t elapsed issued])

lemma waitForTransaction_poll:
  "waitForTransaction c d topt = poll c d (effective_timeout topt) 0 []"
  by (simp add: waitForTransaction_def effective_timeout_def)

lemma not_yet_settled_continue: "not_yet_settled q \<Longrightarrow> poll_once q = Continue"
  by (cases q rule: not_yet_settled.cases)
     (auto simp: poll_once_def catch_clause_def split: option.splits)

lemma query_time_mono: "i \<le> k \<Longrightarrow> query_time c i \<le> query_time c k"
  by (induction k) (auto simp: le_Suc_eq)

text \<open>
  As long as every query so far was followed by the wait and the loop test before the
  last of them passed, the loop stands at the next test with the clock at
  \<open>query_time\<close>.
\<close>

lemma poll_prefix:
  assumes "\<forall>i<k. poll_once (getTransactionBlock c d i) = Continue"
    and "k = 0 \<or> int (query_time c (k - 1)) < t"
  shows "poll c d t 0 [] = poll c d t (query_time c k) (map (query_time c) [0..<k])"
  using assms
proof (induction k)
  case 0
  then show ?case by simp
next
  case (Suc k)
  have before: "k = 0 \<or> int (query_time c (k - 1)) < t"
    using Suc.prems(2) query_time_mono [of "k - 1" k c] by auto
  have "poll c d t 0 [] = poll c d t (query_time c k) (map (query_time c) [0..<k])"
    using Suc.IH Suc.prems(1) before by simp
  also have "\<dots> = poll c d t (query_time c (Suc k)) (map (query_time c) [0..<Suc k])"
    using poll_continue [of "query_time c k" t c d "map (query_time c) [0..<k]"] Suc.prems
    by simp
  finally show ?case .
qed


lemma poll_all_continue_timeout:
  "\<forall>k. poll_once (getTransactionBlock c d k) = Continue \<Longrightarrow>
   fst (poll c d t elapsed issued) = Throw timeout_error"
proof (induction c d t elapsed issued rule: poll.induct)
  case (1 client dig timeoutMs elapsed issued)
  show ?case
  proof (cases "int elapsed < timeoutMs")
    case True
    have cont: "poll_once (getTransactionBlock client dig (length issued)) = Continue"
      using "1.prems" by simp
    show ?thesis
      using "1.IH" [OF True cont "1.prems"] poll_continue [OF True cont] by simp
  next
    case False
    then show ?thesis by (simp add: poll_timeout)
  qed
qed

lemma ticks_step:
  assumes "int elapsed < t"
  shows "Suc (ticks t (elapsed + extra + 1000)) \<le> ticks t elapsed"
    and "Suc (ticks t (elapsed + 1000)) = ticks t elapsed"
proof -
  have a: "(t - int elapsed + 999) div 1000 = (t - int (elapsed + 1000) + 999) div 1000 + 1"
    by simp
  have pos: "0 \<le> (t - int (elapsed + 1000) + 999) div 1000"
    using assms by simp
  have m: "(t - int (elapsed + extra + 1000) + 999) div 1000
             \<le> (t - int (elapsed + 1000) + 999) div 1000"
    by (rule zdiv_mono1) simp_all
  show "Suc (ticks t (elapsed + 1000)) = ticks t elapsed"
    unfolding ticks_def using a pos by (simp add: nat_add_distrib)
  show "Suc (ticks t (elapsed + extra + 1000)) \<le> ticks t elapsed"
    unfolding ticks_def using a pos m by linarith
qed

lemma ticks_done: "\<not> int elapsed < t \<Longrightarrow> ticks t elapsed = 0"
  by (simp add: ticks_def)

lemma poll_all_continue_count:
  "\<forall>k. poll_once (getTransactionBlock c d k) = Continue \<Longrightarrow>
   length (snd (poll c d t elapsed issued)) \<le> length issued + ticks t elapsed"
proof (induction c d t elapsed issued rule: poll.induct)
  case (1 client dig timeoutMs elapsed issued)
  show ?case
  proof (cases "int elapsed < timeoutMs")
    case True
    have cont: "poll_once (getTransactionBlock client dig (length issued)) = Continue"
      using "1.prems" by simp
    let ?extra = "query_ms client (length issued) + timer_lag_ms client (length issued)"
    let ?next = "elapsed + query_ms client (length issued) + 1000
                   + timer_lag_ms client (length issued)"
    have eq: "?next = elapsed + ?extra + 1000" by simp
    have less: "Suc (ticks timeoutMs ?next) \<le> ticks timeoutMs elapsed"
      unfolding eq by (rule ticks_step(1) [OF True])
    have ih: "length (snd (poll client dig timeoutMs ?next (issued @ [elapsed])))
                \<le> Suc (length issued) + ticks timeoutMs ?next"
      using "1.IH" [OF True cont "1.prems"] by simp
    have "poll client dig timeoutMs elapsed issued
            = poll client dig timeoutMs ?next (issued @ [elapsed])"
      by (rule poll_continue [OF True cont])
    then have "length (snd (poll client dig timeoutMs elapsed issued))
            = length (snd (poll client dig timeoutMs ?next (issued @ [elapsed])))"
      by (rule arg_cong)
    then show ?thesis
      using ih less by linarith
  next
    case False
    then show ?thesis by (simp add: poll_timeout)
  qed
qed

lemma poll_all_continue_ideal:
  "\<forall>k. poll_once (getTransactionBlock c d k) = Continue \<Longrightarrow>
   \<forall>k. query_ms c k = 0 \<and> timer_lag_ms c k = 0 \<Longrightarrow>
   snd (poll c d t elapsed issued) = issued @ map (\<lambda>i. elapsed + 1000 * i) [0..<ticks t elapsed]"
proof (induction c d t elapsed issued rule: poll.induct)
  case (1 client dig timeoutMs elapsed issued)
  show ?case
  proof (cases "int elapsed < timeoutMs")
    case True
    have cont: "poll_once (getTransactionBlock client dig (length issued)) = Continue"
      using "1.prems" by simp
    have step: "poll client dig timeoutMs elapsed issued
                  = poll client dig timeoutMs (elapsed + 1000) (issued @ [elapsed])"
      using poll_continue [OF True cont] "1.prems"(2) by simp
    have ih: "snd (poll client dig timeoutMs (elapsed + 1000) (issued @ [elapsed]))
        = (issued @ [elapsed]) @ map (\<lambda>i. elapsed + 1000 + 1000 * i)
              [0..<ticks timeoutMs (elapsed + 1000)]"
      using "1.IH" [OF True cont "1.prems"] "1.prems"(2) by simp
    have "map (\<lambda>i. elapsed + 1000 * i) [0..<Suc (ticks timeoutMs (elapsed + 1000))]
        = elapsed # map (\<lambda>i. elapsed + 1000 + 1000 * i) [0..<ticks timeoutMs (elapsed + 1000)]"
      by (simp only: upt_conv_Cons [of 0] map_Suc_upt [symmetric]) (simp add: comp_def)
    then show ?thesis
      using step ih ticks_step(2) [OF True] by simp
  next
    case False
    then show ?thesis by (simp add: poll_timeout ticks_done)
  qed
qed

text \<open>
  C3, as amended. With \<open>not found\<close> rejections on the first two queries and a success
  status on the third, and the third loop test still inside the timeout, the poller
  returns that block after exactly three queries, sent at least 1000 ms apart (1000 ms
  plus the time of the query and the lag of the timer). When no answer ever settles the
  transaction, the poller throws \<open>Error('Transaction confirmation timeout')\<close>, which
  carries no code, after at most one query per started second of the timeout, and after
  exactly that many, one every 1000 ms, when queries take no time and the timer has no
  lag; with the default timeout that is 30 queries.
\<close>

theorem waitForTransaction_polls:
  "(getTransactionBlock c d 0 = Failed (JSError na (JSString ma)) \<and> js_includes ma ''not found''
      \<and> getTransactionBlock c d 1 = Failed (JSError nb (JSString mb)) \<and> js_includes mb ''not found''
      \<and> getTransactionBlock c d 2 = Returned r \<and> effects_status r = Some StatusSuccess
      \<and> int (query_time c 2) < effective_timeout topt
     \<longrightarrow> waitForTransaction c d topt = (Normal r, [0, query_time c 1, query_time c 2])
         \<and> 1000 \<le> query_time c 1 \<and> query_time c 1 + 1000 \<le> query_time c 2)
   \<and> ((\<forall>k. not_yet_settled (getTransactionBlock c d k)) \<longrightarrow>
        fst (waitForTransaction c d topt)
          = Throw (JSError ''Error'' (JSString ''Transaction confirmation timeout''))
        \<and> length (snd (waitForTransaction c d topt)) \<le> ticks (effective_timeout topt) 0
        \<and> ((\<forall>k. query_ms c k = 0 \<and> timer_lag_ms c k = 0) \<longrightarrow>
             snd (waitForTransaction c d topt)
               = map (\<lambda>i. 1000 * i) [0..<ticks (effective_timeout topt) 0]))
   \<and> ticks (effective_timeout None) 0 = 30"
proof (intro conjI impI)
  assume h: "getTransactionBlock c d 0 = Failed (JSError na (JSString ma)) \<and> js_includes ma ''not found''
      \<and> getTransactionBlock c d 1 = Failed (JSError nb (JSString mb)) \<and> js_includes mb ''not found''
      \<and> getTransactionBlock c d 2 = Returned r \<and> effects_status r = Some StatusSuccess
      \<and> int (query_time c 2) < effective_timeout topt"
  let ?t = "effective_timeout topt"
  have two: "(2::nat) = Suc (Suc 0)" by simp
  have swallowed: "\<forall>i<2. poll_once (getTransactionBlock c d i) = Continue"
  proof (intro allI impI)
    fix i :: nat
    assume "i < 2"
    then have "i = 0 \<or> i = 1" by auto
    then show "poll_once (getTransactionBlock c d i) = Continue"
      using h by (auto simp: poll_once_def catch_clause_def)
  qed
  have before: "(2::nat) = 0 \<or> int (query_time c (2 - 1)) < ?t"
    using h query_time_mono [of 1 2 c] by simp
  have third: "poll_once (getTransactionBlock c d (length (map (query_time c) [0..<2])))
                 = Done (Normal r)"
    using h by (simp add: poll_once_def)
  have "waitForTransaction c d topt = poll c d ?t (query_time c 2) (map (query_time c) [0..<2])"
    using poll_prefix [OF swallowed before] by (simp only: waitForTransaction_poll)
  also have "\<dots> = (Normal r, map (query_time c) [0..<2] @ [query_time c 2])"
    using h by (intro poll_done third) simp
  also have "map (query_time c) [0..<2] @ [query_time c 2] = [0, query_time c 1, query_time c 2]"
    by (simp add: two)
  finally show "waitForTransaction c d topt = (Normal r, [0, query_time c 1, query_time c 2])" .
  show "1000 \<le> query_time c 1" by simp
  show "query_time c 1 + 1000 \<le> query_time c 2" by (simp add: two)
next
  assume h: "\<forall>k. not_yet_settled (getTransactionBlock c d k)"
  then have cont: "\<forall>k. poll_once (getTransactionBlock c d k) = Continue"
    by (simp add: not_yet_settled_continue)
  show "fst (waitForTransaction c d topt)
          = Throw (JSError ''Error'' (JSString ''Transaction confirmation timeout''))"
    using poll_all_continue_timeout [OF cont]
    by (simp only: waitForTransaction_poll timeout_error_def)
  show "length (snd (waitForTransaction c d topt)) \<le> ticks (effective_timeout topt) 0"
    using poll_all_continue_count [OF cont, of "effective_timeout topt" 0 "[]"]
    by (simp only: waitForTransaction_poll) simp
  assume ideal: "\<forall>k. query_ms c k = 0 \<and> timer_lag_ms c k = 0"
  show "snd (waitForTransaction c d topt)
          = map (\<lambda>i. 1000 * i) [0..<ticks (effective_timeout topt) 0]"
    using poll_all_continue_ideal [OF cont ideal, of "effective_timeout topt" 0 "[]"]
    by (simp only: waitForTransaction_poll) simp
next
  show "ticks (effective_timeout None) 0 = 30"
    by (simp add: ticks_def effective_timeout_def)
qed

text \<open>
  Two \<open>not found\<close> rejections and then a success, each query taking 40 ms and each timer
  firing 2 ms late; and a client that always rejects with \<open>not found\<close> on an ideal
  clock, at the default timeout.
\<close>

theorem waitForTransaction_polls_witness:
  "waitForTransaction
      \<lparr>getTransactionBlock = (\<lambda>dig k. if k < 2
              then Failed (JSError ''Error'' (JSString ''Transaction not found''))
              else Returned (TxBlock (Some StatusSuccess) JSNull)),
        query_ms = (\<lambda>k. 40), timer_lag_ms = (\<lambda>k. 2)\<rparr>
      ''9xQeWvG816bUx9EP'' None
     = (Normal (TxBlock (Some StatusSuccess) JSNull), [0, 1042, 2084])
   \<and> fst (waitForTransaction
      \<lparr>getTransactionBlock = (\<lambda>dig k. Failed (JSError ''Error'' (JSString ''Transaction not found''))),
        query_ms = (\<lambda>k. 0), timer_lag_ms = (\<lambda>k. 0)\<rparr>
      ''9xQeWvG816bUx9EP'' None)
     = Throw (JSError ''Error'' (JSString ''Transaction confirmation timeout''))
   \<and> length (snd (waitForTransaction
      \<lparr>getTransactionBlock = (\<lambda>dig k. Failed (JSError ''Error'' (JSString ''Transaction not found''))),
        query_ms = (\<lambda>k. 0), timer_lag_ms = (\<lambda>k. 0)\<rparr>
      ''9xQeWvG816bUx9EP'' None)) = 30"
proof -
  have nf: "js_includes ''Transaction not found'' ''not found''" by code_simp
  have two: "(2::nat) = Suc (Suc 0)" by simp
  show ?thesis
    using waitForTransaction_polls
      [where c = "\<lparr>getTransactionBlock = (\<lambda>dig k. if k < 2
              then Failed (JSError ''Error'' (JSString ''Transaction not found''))
              else Returned (TxBlock (Some StatusSuccess) JSNull)),
          query_ms = (\<lambda>k. 40), timer_lag_ms = (\<lambda>k. 2)\<rparr>"
         and d = "''9xQeWvG816bUx9EP''" and topt = None
         and na = "''Error''" and ma = "''Transaction not found''"
         and nb = "''Error''" and mb = "''Transaction not found''"
         and r = "TxBlock (Some StatusSuccess) JSNull"]
      waitForTransaction_polls
      [where c = "\<lparr>getTransactionBlock = (\<lambda>dig k. Failed (JSError ''Error'' (JSString ''Transaction not found''))),
          query_ms = (\<lambda>k. 0), timer_lag_ms = (\<lambda>k. 0)\<rparr>"
         and d = "''9xQeWvG816bUx9EP''" and topt = None]
    by (simp add: nf two effective_timeout_def)
qed

text \<open>
  C3 as stated fails: the error of the timeout has no code of its own, and the
  classifier of the repository gives it \<open>TRANSACTION_ERROR\<close>; a code \<open>TIMEOUT\<close> occurs
  nowhere in the source.
\<close>

theorem waitForTransaction_timeout_code_counterexample:
  "fst (waitForTransaction
      \<lparr>getTransactionBlock = (\<lambda>dig k. Failed (JSError ''Error'' (JSString ''Transaction not found''))),
        query_ms = (\<lambda>k. 0), timer_lag_ms = (\<lambda>k. 0)\<rparr>
      ''9xQeWvG816bUx9EP'' None)
     = Throw (JSError ''Error'' (JSString ''Transaction confirmation timeout''))
   \<and> handleTransactionError (JSError ''Error'' (JSString ''Transaction confirmation timeout''))
       = Inr \<lparr>message = ''Transaction confirmation timeout'',
              code = Some ''TRANSACTION_ERROR'',
              details = Some (JSError ''Error''
                (JSString ''Transaction confirmation timeout''))\<rparr>
   \<and> ''TRANSACTION_ERROR'' \<noteq> ''TIMEOUT''"
proof -
  have nf: "js_includes ''Transaction not found'' ''not found''" by code_simp
  have cont: "\<forall>k. poll_once (getTransactionBlock
      \<lparr>getTransactionBlock = (\<lambda>dig k. Failed (JSError ''Error'' (JSString ''Transaction not found''))),
        query_ms = (\<lambda>k. 0), timer_lag_ms = (\<lambda>k. 0)\<rparr> ''9xQeWvG816bUx9EP'' k) = Continue"
    by (simp add: poll_once_def catch_clause_def nf)
  have cls: "handleTransactionError (JSError ''Error'' (JSString ''Transaction confirmation timeout''))
       = Inr \<lparr>message = ''Transaction confirmation timeout'',
              code = Some ''TRANSACTION_ERROR'',
              details = Some (JSError ''Error''
                (JSString ''Transaction confirmation timeout''))\<rparr>"
    by simp
  show ?thesis
    using poll_all_continue_timeout [OF cont, of "effective_timeout None" 0 "[]"]
    by (simp only: waitForTransaction_poll timeout_error_def cls) simp
qed




text \<open>
  The \<open>throw\<close> for a failure status stands inside the \<open>try\<close> block, so the \<open>catch\<close> clause
  of the same iteration sees it. When the reported reason holds \<open>not found\<close> the clause
  takes the error for a query that found nothing: the poller keeps querying a
  transaction that has failed and ends in the timeout.
\<close>

lemma failure_status_swallowed_by_catch:
  "waitForTransaction
      \<lparr>getTransactionBlock = (\<lambda>dig k.
          Returned (TxBlock (Some (StatusFailure (Some ''Package object not found''))) JSNull)),
        query_ms = (\<lambda>k. 0), timer_lag_ms = (\<lambda>k. 0)\<rparr>
      ''9xQeWvG816bUx9EP'' (Some 3000)
     = (Throw (JSError ''Error'' (JSString ''Transaction confirmation timeout'')), [0, 1000, 2000])"
  by code_simp

end
